theory Spec2Isabelle
  imports Main "HOL-Library.Sublist" "HOL-Library.Word"
begin

section \<open>Go standard library functions used by the source\<close>

text \<open>
  The host is taken to be Unix: the path separator is \<open>/\<close>, \<open>filepath.ToSlash\<close> is the
  identity and there are no volume names. A Go string is its list of bytes; file names
  are taken to be ASCII, so that one rune is one byte in \<open>filepath.Match\<close>.
  \<open>strings.ReplaceAll(s, "*", "")\<close> is \<open>RemoveAll s (CHR ''*'')\<close>.
\<close>

definition HasPrefix :: "string \<Rightarrow> string \<Rightarrow> bool" where
  "HasPrefix s pre = prefix pre s"

definition HasSuffix :: "string \<Rightarrow> string \<Rightarrow> bool" where
  "HasSuffix s suf = suffix suf s"

definition Contains :: "string \<Rightarrow> string \<Rightarrow> bool" where
  "Contains s sub = sublist sub s"

definition TrimSuffix :: "string \<Rightarrow> string \<Rightarrow> string" where
  "TrimSuffix s suf = (if HasSuffix s suf then take (length s - length suf) s else s)"

definition RemoveAll :: "string \<Rightarrow> char \<Rightarrow> string" where
  "RemoveAll s c = filter (\<lambda>x. x \<noteq> c) s"

fun Split :: "string \<Rightarrow> char \<Rightarrow> string list" where
  "Split [] sep = [[]]"
| "Split (c # cs) sep =
     (if c = sep then [] # Split cs sep
      else (case Split cs sep of [] \<Rightarrow> [[c]] | seg # segs \<Rightarrow> (c # seg) # segs))"

fun Join :: "string list \<Rightarrow> string \<Rightarrow> string" where
  "Join [] sep = []"
| "Join [seg] sep = seg"
| "Join (seg # segs) sep = seg @ sep @ Join segs sep"

subsection \<open>filepath.Match\<close>

text \<open>
  \<open>Match\<close> returns \<open>None\<close> for \<open>ErrBadPattern\<close>. \<open>scanChunk\<close> splits off the next
  star-free chunk of the pattern, \<open>matchChunk\<close> matches a chunk at the start of the name
  (it keeps checking the rest of the chunk after a failed match, so a malformed chunk is
  reported also when the name does not match), and \<open>star_loop\<close> is the search for a later
  match position after a star, which cannot cross a separator. When a chunk does not
  match, \<open>Match\<close> of package filepath returns false at once: the chunks after it are not
  looked at, malformed or not.
\<close>

fun scan_length :: "bool \<Rightarrow> string \<Rightarrow> nat" where
  "scan_length inrange [] = 0"
| "scan_length inrange (c # cs) =
     (if c = CHR 0x5C then (case cs of [] \<Rightarrow> 1 | d # ds \<Rightarrow> 2 + scan_length inrange ds)
      else if c = CHR ''['' then 1 + scan_length True cs
      else if c = CHR '']'' then 1 + scan_length False cs
      else if c = CHR ''*'' then (if \<not> inrange then 0 else 1 + scan_length inrange cs)
      else 1 + scan_length inrange cs)"

definition scanChunk :: "string \<Rightarrow> bool \<times> string \<times> string" where
  "scanChunk pattern =
     (let star = (pattern \<noteq> [] \<and> hd pattern = CHR ''*'');
          p1 = dropWhile (\<lambda>c. c = CHR ''*'') pattern;
          i = scan_length False p1
      in (star, take i p1, drop i p1))"

definition getEsc :: "string \<Rightarrow> (nat \<times> string) option" where
  "getEsc chunk =
     (if chunk = [] \<or> hd chunk = CHR ''-'' \<or> hd chunk = CHR '']'' then None
      else
        (let chunk1 = (if hd chunk = CHR 0x5C then tl chunk else chunk)
         in if chunk1 = [] then None
            else if tl chunk1 = [] then None
            else Some (of_char (hd chunk1), tl chunk1)))"

lemma getEsc_shorter: "getEsc chunk = Some (r, rest) \<Longrightarrow> length rest < length chunk"
  by (cases chunk) (auto simp: getEsc_def Let_def split: if_splits)

lemma getEsc_nonempty: "getEsc chunk = Some (r, rest) \<Longrightarrow> rest \<noteq> []"
  by (auto simp: getEsc_def Let_def split: if_splits)

function parse_ranges :: "nat \<Rightarrow> bool \<Rightarrow> nat \<Rightarrow> string \<Rightarrow> (bool \<times> string) option" where
  "parse_ranges r match nrange chunk =
     (if chunk \<noteq> [] \<and> hd chunk = CHR '']'' \<and> 0 < nrange then Some (match, tl chunk)
      else
        (case getEsc chunk of
           None \<Rightarrow> None
         | Some (lo, chunk1) \<Rightarrow>
             (if hd chunk1 = CHR ''-''
              then (case getEsc (tl chunk1) of
                      None \<Rightarrow> None
                    | Some (hi, chunk2) \<Rightarrow>
                        parse_ranges r (match \<or> (lo \<le> r \<and> r \<le> hi)) (Suc nrange) chunk2)
              else parse_ranges r (match \<or> (lo \<le> r \<and> r \<le> lo)) (Suc nrange) chunk1)))"
  by pat_completeness auto
termination
proof (relation "measure (\<lambda>(r, match, nrange, chunk). length chunk)", goal_cases)
  case 1
  show ?case by simp
next
  case (2 r match nrange chunk x lo chunk1 x2 hi chunk2)
  from 2 have "length chunk1 < length chunk" by (auto dest: getEsc_shorter)
  moreover from 2 have "length chunk2 < length (tl chunk1)" by (auto dest: getEsc_shorter)
  ultimately show ?case by simp
next
  case (3 r match nrange chunk x lo chunk1)
  then show ?case by (auto dest: getEsc_shorter)
qed

declare parse_ranges.simps [simp del]

lemma parse_ranges_shorter:
  "parse_ranges r match nrange chunk = Some (m, rest) \<Longrightarrow> length rest \<le> length chunk"
proof (induction r match nrange chunk rule: parse_ranges.induct)
  case (1 r match nrange chunk)
  show ?case
  proof (cases "chunk \<noteq> [] \<and> hd chunk = CHR '']'' \<and> 0 < nrange")
    case True
    then have "parse_ranges r match nrange chunk = Some (match, tl chunk)"
      by (subst parse_ranges.simps) simp
    with "1.prems" show ?thesis by auto
  next
    case False
    show ?thesis
    proof (cases "getEsc chunk")
      case None
      with False have "parse_ranges r match nrange chunk = None"
        by (subst parse_ranges.simps, subst if_not_P [OF False]) simp
      with "1.prems" show ?thesis by simp
    next
      case (Some a)
      obtain lo chunk1 where a: "a = (lo, chunk1)" by (cases a)
      from Some a have g1: "getEsc chunk = Some (lo, chunk1)" by simp
      have l1: "length chunk1 < length chunk" using g1 by (rule getEsc_shorter)
      show ?thesis
      proof (cases "hd chunk1 = CHR ''-''")
        case True
        show ?thesis
        proof (cases "getEsc (tl chunk1)")
          case None
          with False g1 True have "parse_ranges r match nrange chunk = None"
            by (subst parse_ranges.simps, subst if_not_P [OF False]) simp
          with "1.prems" show ?thesis by simp
        next
          case (Some b)
          obtain hi chunk2 where b: "b = (hi, chunk2)" by (cases b)
          from Some b have g2: "getEsc (tl chunk1) = Some (hi, chunk2)" by simp
          have l2: "length chunk2 < length (tl chunk1)" using g2 by (rule getEsc_shorter)
          from False g1 True g2
          have "parse_ranges r match nrange chunk =
                parse_ranges r (match \<or> (lo \<le> r \<and> r \<le> hi)) (Suc nrange) chunk2"
            by (subst parse_ranges.simps, subst if_not_P [OF False]) simp
          with "1.prems" "1.IH"(1)[OF False g1 refl True g2 refl]
          have "length rest \<le> length chunk2" by simp
          with l1 l2 show ?thesis by simp
        qed
      next
        case F2: False
        from False g1 F2
        have "parse_ranges r match nrange chunk =
              parse_ranges r (match \<or> (lo \<le> r \<and> r \<le> lo)) (Suc nrange) chunk1"
          by (subst parse_ranges.simps, subst if_not_P [OF False]) simp
        with "1.prems" "1.IH"(2)[OF False g1 refl F2]
        have "length rest \<le> length chunk1" by simp
        with l1 show ?thesis by simp
      qed
    qed
  qed
qed

datatype chunk_result = BadPattern | NoMatch | Matched string

function matchChunk_loop :: "bool \<Rightarrow> string \<Rightarrow> string \<Rightarrow> chunk_result" where
  "matchChunk_loop failed [] s = (if failed then NoMatch else Matched s)"
| "matchChunk_loop failed0 (c # chunk) s =
     (let failed = (failed0 \<or> s = []) in
      if c = CHR ''[''
      then
        (let r = (if \<not> failed then of_char (hd s) else 0);
             s1 = (if \<not> failed then tl s else s);
             negated = (chunk \<noteq> [] \<and> hd chunk = CHR ''^'');
             chunk1 = (if negated then tl chunk else chunk)
         in case parse_ranges r False 0 chunk1 of
              None \<Rightarrow> BadPattern
            | Some (match, chunk2) \<Rightarrow>
                matchChunk_loop (failed \<or> match = negated) chunk2 s1)
      else if c = CHR ''?''
      then matchChunk_loop (failed \<or> hd s = CHR ''/'') chunk (if \<not> failed then tl s else s)
      else if c = CHR 0x5C
      then (case chunk of
              [] \<Rightarrow> BadPattern
            | d # chunk1 \<Rightarrow>
                matchChunk_loop (failed \<or> d \<noteq> hd s) chunk1 (if \<not> failed then tl s else s))
      else matchChunk_loop (failed \<or> c \<noteq> hd s) chunk (if \<not> failed then tl s else s))"
  by pat_completeness auto
termination
proof (relation "measure (\<lambda>(failed, chunk, s). length chunk)", goal_cases)
  case (2 failed0 c chunk s failed r s1 negated chunk1 x2 match chunk2)
  then have "length chunk2 \<le> length chunk1" by (auto dest: parse_ranges_shorter)
  moreover from 2 have "length chunk1 \<le> length chunk" by auto
  ultimately show ?case by simp
qed auto

definition matchChunk :: "string \<Rightarrow> string \<Rightarrow> chunk_result" where
  "matchChunk chunk s = matchChunk_loop False chunk s"

datatype star_result = StarBad | StarNone | StarFound string

fun star_loop :: "string \<Rightarrow> bool \<Rightarrow> string \<Rightarrow> star_result" where
  "star_loop chunk last_chunk [] = StarNone"
| "star_loop chunk last_chunk (c # cs) =
     (if c = CHR ''/'' then StarNone
      else
        (case matchChunk chunk cs of
           Matched t \<Rightarrow> (if last_chunk \<and> t \<noteq> [] then star_loop chunk last_chunk cs else StarFound t)
         | BadPattern \<Rightarrow> StarBad
         | NoMatch \<Rightarrow> star_loop chunk last_chunk cs))"

lemma scan_length_le: "scan_length b p \<le> length p"
  by (induction b p rule: scan_length.induct) (auto split: list.splits)

lemma scan_length_pos: "p \<noteq> [] \<Longrightarrow> hd p \<noteq> CHR ''*'' \<Longrightarrow> 0 < scan_length False p"
  by (cases p) (auto split: list.splits)

lemma scanChunk_shorter:
  assumes "pattern \<noteq> []" and "scanChunk pattern = (star, chunk, rest)"
  shows "length rest < length pattern"
proof (cases "hd pattern = CHR ''*''")
  case True
  with assms(1) obtain cs where p: "pattern = CHR ''*'' # cs" by (cases pattern) auto
  have "length (dropWhile (\<lambda>c. c = CHR ''*'') cs) \<le> length cs"
    by (rule length_dropWhile_le)
  with assms(2) p show ?thesis by (auto simp: scanChunk_def Let_def)
next
  case False
  with assms(1) have d: "dropWhile (\<lambda>c. c = CHR ''*'') pattern = pattern" by (cases pattern) auto
  from scan_length_pos[OF assms(1) False] scan_length_le[of False pattern] assms(2) d
  show ?thesis by (auto simp: scanChunk_def Let_def)
qed

function Match :: "string \<Rightarrow> string \<Rightarrow> bool option" where
  "Match pattern name =
     (if pattern = [] then Some (name = [])
      else
        (case scanChunk pattern of (star, chunk, rest) \<Rightarrow>
           if star \<and> chunk = [] then Some (CHR ''/'' \<notin> set name)
           else
             (case matchChunk chunk name of
                Matched t \<Rightarrow>
                  (if t = [] \<or> rest \<noteq> [] then Match rest t
                   else if star
                   then (case star_loop chunk (rest = []) name of
                           StarFound t' \<Rightarrow> Match rest t'
                         | StarBad \<Rightarrow> None
                         | StarNone \<Rightarrow> Some False)
                   else Some False)
              | BadPattern \<Rightarrow> None
              | NoMatch \<Rightarrow>
                  (if star
                   then (case star_loop chunk (rest = []) name of
                           StarFound t' \<Rightarrow> Match rest t'
                         | StarBad \<Rightarrow> None
                         | StarNone \<Rightarrow> Some False)
                   else Some False))))"
  by pat_completeness auto
termination
  by (relation "measure (\<lambda>(pattern, name). length pattern)")
     (auto dest: scanChunk_shorter [OF _ sym])

declare Match.simps [simp del]

subsection \<open>filepath.Clean, filepath.Dir, filepath.Base\<close>

definition clean_step :: "bool \<Rightarrow> string list \<Rightarrow> string \<Rightarrow> string list" where
  "clean_step rooted out seg =
     (if seg = [] \<or> seg = ''.'' then out
      else if seg = ''..''
      then (case out of
              [] \<Rightarrow> (if rooted then [] else [seg])
            | lastseg # below \<Rightarrow> (if lastseg = ''..'' then seg # out else below))
      else seg # out)"

definition Clean :: "string \<Rightarrow> string" where
  "Clean path =
     (if path = [] then ''.''
      else
        (let rooted = (hd path = CHR ''/'');
             out = foldl (clean_step rooted) [] (Split path (CHR ''/''))
         in if rooted then CHR ''/'' # Join (rev out) ''/''
            else if out = [] then ''.''
            else Join (rev out) ''/''))"

definition dir_part :: "string \<Rightarrow> string" where
  "dir_part path = rev (dropWhile (\<lambda>c. c \<noteq> CHR ''/'') (rev path))"

definition Dir :: "string \<Rightarrow> string" where
  "Dir path = Clean (dir_part path)"

definition Base :: "string \<Rightarrow> string" where
  "Base path =
     (if path = [] then ''.''
      else
        (let p1 = rev (dropWhile (\<lambda>c. c = CHR ''/'') (rev path));
             p2 = rev (takeWhile (\<lambda>c. c \<noteq> CHR ''/'') (rev p1))
         in if p2 = [] then ''/'' else p2))"

text \<open>\<open>strings.Trim(s, "/")\<close> and \<open>filepath.Join\<close> of two elements.\<close>

definition Trim_slash :: "string \<Rightarrow> string" where
  "Trim_slash s =
     rev (dropWhile (\<lambda>c. c = CHR ''/'') (rev (dropWhile (\<lambda>c. c = CHR ''/'') s)))"

definition Join2 :: "string \<Rightarrow> string \<Rightarrow> string" where
  "Join2 a b =
     (if a = [] \<and> b = [] then []
      else if a = [] then Clean b
      else if b = [] then Clean a
      else Clean (a @ ''/'' @ b))"

text \<open>
  \<open>Clean\<close> works on the elements between separators: empty and \<open>.\<close> elements are
  dropped, a \<open>..\<close> element removes the element before it where there is one to
  remove. \<open>Dir\<close> cleans the part of the path up to its last separator.

  The following facts give the measure for loops that climb with \<open>Dir\<close>: unless the
  result is \<open>.\<close> or \<open>/\<close>, it is shorter than the path.
\<close>

definition weight :: "string list \<Rightarrow> nat" where
  "weight segs = sum_list (map (\<lambda>seg. Suc (length seg)) segs)"

definition credit :: "string list \<Rightarrow> nat" where
  "credit segs = sum_list (map (\<lambda>seg. if seg = [] then 0 else Suc (length seg)) segs)"

lemma Split_nonempty: "Split s sep \<noteq> []"
  by (induction s) (auto split: list.splits)

lemma weight_Split: "weight (Split s sep) = Suc (length s)"
  by (induction s) (auto simp: weight_def split: list.splits)

lemma credit_le_weight: "credit segs \<le> weight segs"
  by (induction segs) (auto simp: credit_def weight_def)

lemma Split_snoc_sep: "Split (s @ [sep]) sep = Split s sep @ [[]]"
  by (induction s) (auto simp: Split_nonempty split: list.splits)

lemma credit_append: "credit (xs @ ys) = credit xs + credit ys"
  by (simp add: credit_def)

lemma weight_clean_step: "weight (clean_step rooted out seg) \<le> weight out + credit [seg]"
  by (auto simp: clean_step_def weight_def credit_def split: list.splits)

lemma weight_foldl_clean_step:
  "weight (foldl (clean_step rooted) out segs) \<le> weight out + credit segs"
proof (induction segs arbitrary: out)
  case Nil
  show ?case by (simp add: credit_def)
next
  case (Cons seg segs)
  have "weight (foldl (clean_step rooted) (clean_step rooted out seg) segs)
        \<le> weight (clean_step rooted out seg) + credit segs"
    by (rule Cons.IH)
  also have "\<dots> \<le> weight out + credit [seg] + credit segs"
    using weight_clean_step [of rooted out seg] by simp
  finally show ?case by (simp add: credit_def)
qed

lemma length_Join: "segs \<noteq> [] \<Longrightarrow> Suc (length (Join segs ''/'')) = weight segs"
  by (induction segs "''/''" rule: Join.induct) (auto simp: weight_def)

lemma weight_rev: "weight (rev segs) = weight segs"
  by (simp add: weight_def rev_map [symmetric])

lemma credit_Split_trailing: "credit (Split (s @ ''/'') (CHR ''/'')) \<le> Suc (length s)"
proof -
  have "credit (Split (s @ ''/'') (CHR ''/'')) = credit (Split s (CHR ''/''))"
    by (simp add: Split_snoc_sep credit_append) (simp add: credit_def)
  also have "\<dots> \<le> weight (Split s (CHR ''/''))" by (rule credit_le_weight)
  finally show ?thesis by (simp add: weight_Split)
qed

lemma Clean_trailing_shorter:
  assumes "Clean (s @ ''/'') \<noteq> ''.''" and "Clean (s @ ''/'') \<noteq> ''/''"
  shows "length (Clean (s @ ''/'')) \<le> length s"
proof (cases "hd (s @ ''/'') = CHR ''/''")
  case False
  define out where "out = foldl (clean_step False) [] (Split (s @ ''/'') (CHR ''/''))"
  from False have c: "Clean (s @ ''/'') = (if out = [] then ''.'' else Join (rev out) ''/'')"
    by (simp add: Clean_def out_def)
  with assms(1) have ne: "out \<noteq> []" by auto
  have "weight out \<le> credit (Split (s @ ''/'') (CHR ''/''))"
    using weight_foldl_clean_step [of False "[]" "Split (s @ ''/'') (CHR ''/'')"]
    by (simp add: out_def weight_def)
  with credit_Split_trailing [of s] have "weight out \<le> Suc (length s)" by simp
  moreover from ne have "Suc (length (Join (rev out) ''/'')) = weight out"
    using length_Join [of "rev out"] by (simp add: weight_rev)
  ultimately show ?thesis using c ne by simp
next
  case True
  define out where "out = foldl (clean_step True) [] (Split (s @ ''/'') (CHR ''/''))"
  from True have c: "Clean (s @ ''/'') = CHR ''/'' # Join (rev out) ''/''"
    by (simp add: Clean_def out_def)
  with assms(2) have ne: "out \<noteq> []" by auto
  with c True obtain t where s: "s = CHR ''/'' # t"
    by (cases s) (auto simp: out_def clean_step_def)
  have "Split (s @ ''/'') (CHR ''/'') = [] # Split (t @ ''/'') (CHR ''/'')"
    by (simp add: s)
  then have "credit (Split (s @ ''/'') (CHR ''/'')) = credit (Split (t @ ''/'') (CHR ''/''))"
    by (simp add: credit_def)
  with credit_Split_trailing [of t] s have "credit (Split (s @ ''/'') (CHR ''/'')) \<le> length s"
    by simp
  moreover have "weight out \<le> credit (Split (s @ ''/'') (CHR ''/''))"
    using weight_foldl_clean_step [of True "[]" "Split (s @ ''/'') (CHR ''/'')"]
    by (simp add: out_def weight_def)
  moreover from ne have "Suc (length (Join (rev out) ''/'')) = weight out"
    using length_Join [of "rev out"] by (simp add: weight_rev)
  ultimately show ?thesis using c by simp
qed

lemma dir_part_cases:
  "dir_part path = [] \<or> (\<exists>s. dir_part path = s @ ''/'' \<and> length s < length path)"
proof (cases "dropWhile (\<lambda>c. c \<noteq> CHR ''/'') (rev path)")
  case Nil
  then show ?thesis by (simp add: dir_part_def)
next
  case (Cons c cs)
  then have "c = CHR ''/''" using hd_dropWhile [of "\<lambda>c. c \<noteq> CHR ''/''" "rev path"] by simp
  moreover have "length (dropWhile (\<lambda>c. c \<noteq> CHR ''/'') (rev path)) \<le> length (rev path)"
    by (rule length_dropWhile_le)
  ultimately show ?thesis using Cons by (auto simp: dir_part_def)
qed

lemma Dir_shorter:
  "Dir path = ''.'' \<or> Dir path = ''/'' \<or> length (Dir path) < length path"
proof -
  from dir_part_cases [of path] show ?thesis
  proof
    assume "dir_part path = []"
    then show ?thesis by (simp add: Dir_def Clean_def)
  next
    assume "\<exists>s. dir_part path = s @ ''/'' \<and> length s < length path"
    then obtain s where s: "dir_part path = s @ ''/''" "length s < length path" by blast
    show ?thesis
    proof (cases "Clean (s @ ''/'') = ''.'' \<or> Clean (s @ ''/'') = ''/''")
      case True
      with s(1) show ?thesis by (auto simp: Dir_def)
    next
      case False
      then have "length (Clean (s @ ''/'')) \<le> length s"
        using Clean_trailing_shorter [of s] by blast
      with s show ?thesis by (simp add: Dir_def)
    qed
  qed
qed

section \<open>Pattern matching of package utils (ignore.go)\<close>

definition matchPattern :: "string \<Rightarrow> string \<Rightarrow> bool" where
  "matchPattern path pattern =
     (if HasSuffix pattern ''/''
      then (let dirPattern = TrimSuffix pattern ''/''
            in HasPrefix path (dirPattern @ ''/'') \<or> path = dirPattern)
      else if Contains pattern ''*''
      then (case Match pattern (Base path) of
              None \<Rightarrow> Contains path (RemoveAll pattern (CHR ''*''))
            | Some matched \<Rightarrow> matched)
      else path = pattern \<or> HasSuffix path (''/'' @ pattern)
           \<or> Contains path (''/'' @ pattern @ ''/''))"

fun ShouldIgnore :: "string \<Rightarrow> string list \<Rightarrow> bool" where
  "ShouldIgnore path [] = False"
| "ShouldIgnore path (pattern # patterns) =
     (if matchPattern path pattern then True else ShouldIgnore path patterns)"

definition FilterPaths :: "string list \<Rightarrow> string list \<Rightarrow> string list \<Rightarrow> string list" where
  "FilterPaths paths excludePatterns includePatterns =
     filter
       (\<lambda>path.
          \<not> (excludePatterns \<noteq> [] \<and> ShouldIgnore path excludePatterns)
          \<and> (includePatterns = [] \<or> list_ex (matchPattern path) includePatterns))
       paths"

section \<open>Pattern matching of package scanner\<close>

function parent_matches :: "string \<Rightarrow> string \<Rightarrow> bool" where
  "parent_matches pattern dir =
     (if dir \<noteq> ''.'' \<and> dir \<noteq> ''/''
      then (if Match pattern (Base dir) = Some True then True
            else parent_matches pattern (Dir dir))
      else False)"
  by pat_completeness auto
termination
proof (relation "measure (\<lambda>(pattern, dir). if dir = ''.'' \<or> dir = ''/'' then 0 else Suc (length dir))",
    goal_cases)
  case 1
  show ?case by simp
next
  case (2 pattern dir)
  with Dir_shorter [of dir] show ?case by auto
qed

declare parent_matches.simps [simp del]

definition Scanner_matchPattern :: "string \<Rightarrow> string \<Rightarrow> bool \<Rightarrow> bool" where
  "Scanner_matchPattern pattern0 path isDir =
     (if HasSuffix pattern0 ''/'' \<and> \<not> isDir then False
      else
        (let pattern = (if HasSuffix pattern0 ''/'' then TrimSuffix pattern0 ''/'' else pattern0)
         in if path = pattern then True
            else if Match pattern path = Some True then True
            else if HasPrefix path (pattern @ ''/'') then True
            else parent_matches pattern (Dir path)))"

text \<open>The directories that the loop of \<open>Scanner.matchPattern\<close> visits from \<open>dir\<close>.\<close>

function parent_dirs :: "string \<Rightarrow> string list" where
  "parent_dirs dir =
     (if dir \<noteq> ''.'' \<and> dir \<noteq> ''/'' then dir # parent_dirs (Dir dir) else [])"
  by pat_completeness auto
termination
proof (relation "measure (\<lambda>dir. if dir = ''.'' \<or> dir = ''/'' then 0 else Suc (length dir))",
    goal_cases)
  case 1
  show ?case by simp
next
  case (2 dir)
  with Dir_shorter [of dir] show ?case by auto
qed

declare parent_dirs.simps [simp del]

text \<open>A pattern without the metacharacters of \<open>filepath.Match\<close> matches itself only.\<close>

definition literal_pattern :: "string \<Rightarrow> bool" where
  "literal_pattern pattern =
     list_all (\<lambda>c. c \<noteq> CHR ''*'' \<and> c \<noteq> CHR ''?'' \<and> c \<noteq> CHR ''['' \<and> c \<noteq> CHR 0x5C) pattern"

section \<open>Errors, the local file tree and filepath.Walk\<close>

text \<open>
  A Go error is a message; \<open>Wrap msg e\<close> is \<open>fmt.Errorf("msg: %w", e)\<close>.
\<close>

datatype error = Err string | Wrap string error

text \<open>
  The local tree as \<open>filepath.Walk\<close> finds it. A file has a name, a size, a
  modification time and what opening and reading it gives: \<open>os.Open\<close> fails, or the
  file opens and a read fails before the end, or the content is read. A directory has
  its entries in the order of \<open>os.ReadDir\<close> (sorted by name). \<open>UnreadableDir\<close> is a
  directory whose entries cannot be read, \<open>BrokenNode\<close> an entry on which \<open>Lstat\<close>
  fails.
\<close>

datatype file_data = OpenFails error | ReadFails error | Content string

datatype fsnode =
    FileNode string int int file_data
  | DirNode string int int "fsnode list"
  | UnreadableDir string int int error
  | BrokenNode string error

text \<open>The \<open>os.FileInfo\<close> of an entry (nil on a broken one).\<close>

fun node_name :: "fsnode \<Rightarrow> string" where
  "node_name (FileNode n sz mt c) = n"
| "node_name (DirNode n sz mt cs) = n"
| "node_name (UnreadableDir n sz mt e) = n"
| "node_name (BrokenNode n e) = n"

fun info_IsDir :: "fsnode \<Rightarrow> bool" where
  "info_IsDir (FileNode n sz mt c) = False"
| "info_IsDir (DirNode n sz mt cs) = True"
| "info_IsDir (UnreadableDir n sz mt e) = True"
| "info_IsDir (BrokenNode n e) = False"

fun info_Size :: "fsnode \<Rightarrow> int" where
  "info_Size (FileNode n sz mt c) = sz"
| "info_Size (DirNode n sz mt cs) = sz"
| "info_Size (UnreadableDir n sz mt e) = sz"
| "info_Size (BrokenNode n e) = 0"

fun info_ModTime :: "fsnode \<Rightarrow> int" where
  "info_ModTime (FileNode n sz mt c) = mt"
| "info_ModTime (DirNode n sz mt cs) = mt"
| "info_ModTime (UnreadableDir n sz mt e) = mt"
| "info_ModTime (BrokenNode n e) = 0"

text \<open>
  \<open>os.Open\<close>: an error, or the open file. The open file is given as what reading it
  to its end gives (\<open>io.Copy\<close> from it, or sending it as the media of a request): a read
  error or the content.
\<close>

fun os_Open :: "fsnode \<Rightarrow> error + (error + string)" where
  "os_Open (FileNode n sz mt (OpenFails e)) = Inl e"
| "os_Open (FileNode n sz mt (ReadFails e)) = Inr (Inl e)"
| "os_Open (FileNode n sz mt (Content content)) = Inr (Inr content)"
| "os_Open (DirNode n sz mt cs) = Inr (Inl (Err ''is a directory''))"
| "os_Open (UnreadableDir n sz mt e) = Inl e"
| "os_Open (BrokenNode n e) = Inl e"

text \<open>
  What a walk function returns: \<open>nil\<close>, \<open>filepath.SkipDir\<close> or another error. (No walk
  function of the repository returns \<open>filepath.SkipAll\<close>.)
\<close>

datatype walk_result = Continue | SkipDir | Abort error

text \<open>
  A walk function gets the path of the entry relative to the root of the walk (\<open>.\<close>
  for the root itself: this is what \<open>filepath.Rel(root, path)\<close> gives on the paths that
  \<open>Walk\<close> builds, where it cannot fail), the entry, and the error of \<open>Lstat\<close> or of
  reading the directory; it works on a state \<open>'s\<close> that stands for everything the
  closure changes.
\<close>

type_synonym 's WalkFunc = "string \<Rightarrow> fsnode \<Rightarrow> error option \<Rightarrow> 's \<Rightarrow> walk_result \<times> 's"

fun error_message :: "error \<Rightarrow> string" where
  "error_message (Err msg) = msg"
| "error_message (Wrap msg e) = msg @ '': '' @ error_message e"

definition child_path :: "string \<Rightarrow> string \<Rightarrow> string" where
  "child_path dir name = (if dir = ''.'' then name else dir @ ''/'' @ name)"

text \<open>
  The path that \<open>Walk\<close> passes to the walk function for the entry at a relative path:
  the root as it was given for the root itself, and below it \<open>filepath.Join\<close> of the
  directory's path and the name of the entry. \<open>Join\<close> cleans its result, so that joining
  name by name gives the cleaned path of the root followed by the relative path.
\<close>

definition abs_path :: "string \<Rightarrow> string \<Rightarrow> string" where
  "abs_path rootPath relPath = (if relPath = ''.'' then rootPath else Join2 rootPath relPath)"

text \<open>
  \<open>walk\<close> and the loop over the entries of a directory, as in package filepath: the
  walk function is called on a directory before its entries; any result other than
  \<open>nil\<close> ends the directory; \<open>SkipDir\<close> from a directory entry is absorbed by the loop
  of its parent, \<open>SkipDir\<close> from a file ends the loop of its parent; any other error
  ends the walk.
\<close>

fun walk :: "'s WalkFunc \<Rightarrow> string \<Rightarrow> fsnode \<Rightarrow> 's \<Rightarrow> walk_result \<times> 's"
  and walk_names :: "'s WalkFunc \<Rightarrow> string \<Rightarrow> fsnode list \<Rightarrow> 's \<Rightarrow> walk_result \<times> 's"
where
  "walk walkFn path (FileNode n sz mt c) s = walkFn path (FileNode n sz mt c) None s"
| "walk walkFn path (DirNode n sz mt entries) s =
     (case walkFn path (DirNode n sz mt entries) None s of
        (Continue, s1) \<Rightarrow> walk_names walkFn path entries s1
      | (err1, s1) \<Rightarrow> (err1, s1))"
| "walk walkFn path (UnreadableDir n sz mt e) s =
     walkFn path (UnreadableDir n sz mt e) (Some e) s"
| "walk walkFn path (BrokenNode n e) s = walkFn path (BrokenNode n e) (Some e) s"
| "walk_names walkFn path [] s = (Continue, s)"
| "walk_names walkFn path (entry # entries) s =
     (case entry of
        BrokenNode n e \<Rightarrow>
          (case walkFn (child_path path n) entry (Some e) s of
             (Abort err, s1) \<Rightarrow> (Abort err, s1)
           | (_, s1) \<Rightarrow> walk_names walkFn path entries s1)
      | _ \<Rightarrow>
          (case walk walkFn (child_path path (node_name entry)) entry s of
             (Continue, s1) \<Rightarrow> walk_names walkFn path entries s1
           | (SkipDir, s1) \<Rightarrow>
               (if info_IsDir entry then walk_names walkFn path entries s1 else (SkipDir, s1))
           | (Abort err, s1) \<Rightarrow> (Abort err, s1)))"

definition Walk :: "'s WalkFunc \<Rightarrow> fsnode \<Rightarrow> 's \<Rightarrow> error option \<times> 's" where
  "Walk fn root s =
     (case walk fn ''.'' root s of
        (Abort err, s1) \<Rightarrow> (Some err, s1)
      | (_, s1) \<Rightarrow> (None, s1))"

text \<open>
  The entries from which the loop over a directory goes on after \<open>SkipDir\<close>: all
  but regular files.
\<close>

definition absorbs_skip :: "fsnode \<Rightarrow> bool" where
  "absorbs_skip entry = (case entry of FileNode n sz mt c \<Rightarrow> False | _ \<Rightarrow> True)"

text \<open>
  The walk functions of the repository have one shape: they pass over the root, prune a
  directory that their filter matches, pass over a file that it matches, and handle
  every other entry. \<open>reached\<close> lists the entries that such a walk handles on a tree in
  which every entry can be accessed, in the order of the walk, each with its relative
  path: an entry is reached when the filter matches neither the entry nor a directory
  above it.
\<close>

fun reached :: "(string \<Rightarrow> bool \<Rightarrow> bool) \<Rightarrow> string \<Rightarrow> fsnode \<Rightarrow> (string \<times> fsnode) list" where
  "reached ign path (FileNode n sz mt c) =
     (if path = ''.'' \<or> ign path False then [] else [(path, FileNode n sz mt c)])"
| "reached ign path (DirNode n sz mt entries) =
     (if path = ''.''
      then concat (map (\<lambda>entry. reached ign (child_path path (node_name entry)) entry) entries)
      else if ign path True then []
      else (path, DirNode n sz mt entries) #
           concat (map (\<lambda>entry. reached ign (child_path path (node_name entry)) entry) entries))"
| "reached ign path (UnreadableDir n sz mt e) = []"
| "reached ign path (BrokenNode n e) = []"

text \<open>
  Handling a list of entries in order, up to the first that does not return \<open>nil\<close>; and
  what the loop over a directory makes of \<open>SkipDir\<close> from a directory entry.
\<close>

definition settle :: "walk_result \<Rightarrow> walk_result" where
  "settle r = (case r of SkipDir \<Rightarrow> Continue | _ \<Rightarrow> r)"

fun run_entries ::
  "(string \<Rightarrow> fsnode \<Rightarrow> 's \<Rightarrow> walk_result \<times> 's) \<Rightarrow> (string \<times> fsnode) list \<Rightarrow> 's
   \<Rightarrow> walk_result \<times> 's" where
  "run_entries act [] s = (Continue, s)"
| "run_entries act ((path, node) # rest) s =
     (case act path node s of
        (Continue, s1) \<Rightarrow> run_entries act rest s1
      | (r, s1) \<Rightarrow> (r, s1))"

text \<open>A tree on which no \<open>Lstat\<close> and no directory read fails.\<close>

fun accessible :: "fsnode \<Rightarrow> bool" where
  "accessible (FileNode n sz mt c) = True"
| "accessible (DirNode n sz mt entries) = list_all accessible entries"
| "accessible (UnreadableDir n sz mt e) = False"
| "accessible (BrokenNode n e) = False"

section \<open>Directory scanner (package scanner)\<close>

record FileInfo =
  Path :: string
  AbsolutePath :: string
  Size :: int
  ModTime :: int
  IsDir :: bool
  MD5Hash :: string

record Scanner =
  ignorePatterns :: "string list"
  includePatterns :: "string list"

definition NewScanner :: "string list \<Rightarrow> string list \<Rightarrow> Scanner" where
  "NewScanner ignoreP includeP = \<lparr>ignorePatterns = ignoreP, includePatterns = includeP\<rparr>"

fun any_pattern_matches :: "string list \<Rightarrow> string \<Rightarrow> bool \<Rightarrow> bool" where
  "any_pattern_matches [] relPath isDir = False"
| "any_pattern_matches (pattern # patterns) relPath isDir =
     (if Scanner_matchPattern pattern relPath isDir then True
      else any_pattern_matches patterns relPath isDir)"

definition shouldIgnore :: "Scanner \<Rightarrow> string \<Rightarrow> bool \<Rightarrow> bool" where
  "shouldIgnore s relPath isDir = any_pattern_matches (ignorePatterns s) relPath isDir"

definition shouldInclude :: "Scanner \<Rightarrow> string \<Rightarrow> bool \<Rightarrow> bool" where
  "shouldInclude s relPath isDir =
     (if includePatterns s = [] then True
      else if isDir then True
      else any_pattern_matches (includePatterns s) relPath isDir)"

text \<open>
  \<open>calculateMD5\<close> opens the file and streams it through MD5: opening can fail, and
  reading can fail after that. The digest function \<open>md5\<close> (hexadecimal digest of the
  bytes) is a parameter.
\<close>

definition calculateMD5 :: "(string \<Rightarrow> string) \<Rightarrow> fsnode \<Rightarrow> error + string" where
  "calculateMD5 md5 file =
     (case os_Open file of
        Inl e \<Rightarrow> Inl (Wrap ''failed to open file'' e)
      | Inr reader \<Rightarrow>
          (case reader of
             Inl e \<Rightarrow> Inl (Wrap ''failed to read file for hashing'' e)
           | Inr content \<Rightarrow> Inr (md5 content)))"

record scan_state =
  files :: "FileInfo list"
  printed :: "string list"

text \<open>The walk function of \<open>Scan\<close>; \<open>printed\<close> is its standard output.\<close>

definition scan_walkFn ::
  "Scanner \<Rightarrow> (string \<Rightarrow> string) \<Rightarrow> string \<Rightarrow> scan_state WalkFunc" where
  "scan_walkFn s md5 rootPath relPath info err st =
     (case err of
        Some e \<Rightarrow> (Abort (Wrap (''error accessing '' @ abs_path rootPath relPath) e), st)
      | None \<Rightarrow>
          if relPath = ''.'' then (Continue, st)
          else if shouldIgnore s relPath (info_IsDir info)
          then (if info_IsDir info then (SkipDir, st) else (Continue, st))
          else if \<not> shouldInclude s relPath (info_IsDir info) then (Continue, st)
          else
            (let fileInfo = \<lparr>Path = relPath, AbsolutePath = abs_path rootPath relPath,
                              Size = info_Size info, ModTime = info_ModTime info,
                              IsDir = info_IsDir info, MD5Hash = []\<rparr>
             in if \<not> info_IsDir info \<and> 0 < info_Size info
                then (case calculateMD5 md5 info of
                        Inl e \<Rightarrow>
                          (Continue,
                           st\<lparr>files := files st @ [fileInfo],
                              printed := printed st @
                                [''Warning: Failed to calculate MD5 for '' @
                                 abs_path rootPath relPath @ '': '' @ error_message e @
                                 [CHR 0x0A]]\<rparr>)
                      | Inr hash \<Rightarrow>
                          (Continue, st\<lparr>files := files st @ [fileInfo\<lparr>MD5Hash := hash\<rparr>]\<rparr>))
                else (Continue, st\<lparr>files := files st @ [fileInfo]\<rparr>)))"

definition Scan ::
  "Scanner \<Rightarrow> (string \<Rightarrow> string) \<Rightarrow> string \<Rightarrow> fsnode \<Rightarrow> (error + FileInfo list) \<times> string list" where
  "Scan s md5 rootPath root =
     (case Walk (scan_walkFn s md5 rootPath) root \<lparr>files = [], printed = []\<rparr> of
        (Some err, st) \<Rightarrow> (Inl (Wrap ''failed to scan directory'' err), printed st)
      | (None, st) \<Rightarrow> (Inr (files st), printed st))"

text \<open>
  What a scan is to return, entry by entry. The entries that a scan records are those
  that the walk reaches under the ignore patterns and that the include patterns admit.
  An entry is hashed when it is no directory and its size is above zero. The inventory
  has one record for each recorded entry, with the hash where the entry is hashed and
  the hash can be computed and the empty hash otherwise; the output has one warning for
  each hashed entry whose hash cannot be computed.
\<close>

definition scanned :: "Scanner \<Rightarrow> fsnode \<Rightarrow> (string \<times> fsnode) list" where
  "scanned s root =
     filter (\<lambda>(relPath, info). shouldInclude s relPath (info_IsDir info))
       (reached (shouldIgnore s) ''.'' root)"

definition hashed :: "fsnode \<Rightarrow> bool" where
  "hashed info = (\<not> info_IsDir info \<and> 0 < info_Size info)"

definition inventory_entry :: "(string \<Rightarrow> string) \<Rightarrow> string \<Rightarrow> string \<times> fsnode \<Rightarrow> FileInfo" where
  "inventory_entry md5 rootPath =
     (\<lambda>(relPath, info).
        \<lparr>Path = relPath, AbsolutePath = abs_path rootPath relPath,
         Size = info_Size info, ModTime = info_ModTime info, IsDir = info_IsDir info,
         MD5Hash = (if hashed info
                    then (case calculateMD5 md5 info of Inl e \<Rightarrow> [] | Inr hash \<Rightarrow> hash)
                    else [])\<rparr>)"

definition hash_warnings :: "(string \<Rightarrow> string) \<Rightarrow> string \<Rightarrow> string \<times> fsnode \<Rightarrow> string list" where
  "hash_warnings md5 rootPath =
     (\<lambda>(relPath, info).
        if hashed info
        then (case calculateMD5 md5 info of
                Inl e \<Rightarrow>
                  [''Warning: Failed to calculate MD5 for '' @ abs_path rootPath relPath @
                   '': '' @ error_message e @ [CHR 0x0A]]
              | Inr hash \<Rightarrow> [])
        else [])"

text \<open>Only files that are not empty carry a hash.\<close>

definition hash_only_nonempty_files :: "scan_state \<Rightarrow> bool" where
  "hash_only_nonempty_files st =
     (\<forall>f \<in> set (files st). MD5Hash f \<noteq> [] \<longrightarrow> \<not> IsDir f \<and> 0 < Size f)"

text \<open>
  An example tree: a file, a directory with a file that cannot be opened and a file on
  which reading fails, an empty file and a temporary file.
\<close>

definition example_tree :: fsnode where
  "example_tree = DirNode ''src'' 4096 10
     [FileNode ''a.txt'' 2 11 (Content ''hi''),
      DirNode ''b'' 4096 12
        [FileNode ''c.txt'' 2 13 (OpenFails (Err ''permission denied'')),
         FileNode ''d.bin'' 5 16 (ReadFails (Err ''input/output error''))],
      FileNode ''empty'' 0 14 (Content []),
      FileNode ''x.tmp'' 3 15 (Content ''tmp'')]"

text \<open>A stand-in for the digest function in examples.\<close>

definition example_digest :: "string \<Rightarrow> string" where
  "example_digest content = ''md5:'' @ content"

section \<open>Configuration (package config)\<close>

text \<open>
  The fields \<open>FolderID\<close> and \<open>DestinationPath\<close> exist in both provider sections; a
  prefix tells them apart here.
\<close>

record GoogleDriveConfig =
  gd_CredentialsPath :: string
  gd_TokenPath :: string
  gd_Scopes :: "string list"
  gd_FolderID :: string
  gd_DestinationPath :: string
  gd_Metadata :: "(string \<times> string) list"

record PCloudConfig =
  pc_Username :: string
  pc_Password :: string
  pc_APIHost :: string
  pc_FolderID :: string
  pc_DestinationPath :: string

record GeneralConfig =
  SourcePath :: string
  MaxConcurrency :: int
  RetryAttempts :: int
  ChunkSizeBytes :: int
  IgnorePatterns :: "string list"
  IncludePatterns :: "string list"

record DaemonConfig =
  Enabled :: bool
  SyncInterval :: string
  WatchMode :: bool
  PidFile :: string

record Config =
  GoogleDrive :: GoogleDriveConfig
  PCloud :: PCloudConfig
  General :: GeneralConfig
  Daemon :: "DaemonConfig option"

text \<open>
  \<open>Daemon\<close> is \<open>Optional.Daemon\<close>, \<open>None\<close> when \<open>Optional\<close> or its \<open>Daemon\<close> is nil.
\<close>

definition IsWatchMode :: "Config \<Rightarrow> bool" where
  "IsWatchMode c = (case Daemon c of None \<Rightarrow> False | Some d \<Rightarrow> WatchMode d)"

definition DefaultConfig :: Config where
  "DefaultConfig =
     \<lparr>GoogleDrive = \<lparr>gd_CredentialsPath = ''credentials.json'', gd_TokenPath = ''token.json'',
                      gd_Scopes = [], gd_FolderID = [], gd_DestinationPath = [],
                      gd_Metadata = []\<rparr>,
      PCloud = \<lparr>pc_Username = [], pc_Password = [], pc_APIHost = [], pc_FolderID = [],
                 pc_DestinationPath = []\<rparr>,
      General = \<lparr>SourcePath = [], MaxConcurrency = 5, RetryAttempts = 3,
                  ChunkSizeBytes = 8 * 1024 * 1024,
                  IgnorePatterns = [''.git/'', ''.DS_Store'', ''Thumbs.db'', ''*.tmp'', ''*.temp''],
                  IncludePatterns = []\<rparr>,
      Daemon = None\<rparr>"

section \<open>Remote calls and logging\<close>

text \<open>
  What a client does to the world: the remote calls it has issued, in order, and the
  lines it has logged (format and arguments). A remote service is a function from the
  calls issued so far and the next call to the reply, so that it can behave in any way,
  also differently on a repeated call.
\<close>

datatype log_arg = S string | D int

record 'call world =
  calls :: "'call list"
  logged :: "(string \<times> log_arg list) list"
  verboseMode :: bool

definition log_Printf :: "string \<Rightarrow> log_arg list \<Rightarrow> 'call world \<Rightarrow> 'call world" where
  "log_Printf format args w = w\<lparr>logged := logged w @ [(format, args)]\<rparr>"

text \<open>\<open>utils.LogInfo\<close> and \<open>utils.LogVerbose\<close> (package utils, logger.go).\<close>

definition LogInfo :: "string \<Rightarrow> log_arg list \<Rightarrow> 'call world \<Rightarrow> 'call world" where
  "LogInfo format args w = log_Printf format args w"

definition LogVerbose :: "string \<Rightarrow> log_arg list \<Rightarrow> 'call world \<Rightarrow> 'call world" where
  "LogVerbose format args w =
     (if verboseMode w then log_Printf (''[VERBOSE] '' @ format) args w else w)"

text \<open>\<open>strconv.FormatInt(i, 10)\<close>.\<close>

fun decimal :: "nat \<Rightarrow> string" where
  "decimal n =
     (if n < 10 then [char_of (48 + n)] else decimal (n div 10) @ [char_of (48 + n mod 10)])"

definition FormatInt :: "int \<Rightarrow> string" where
  "FormatInt i = (if i < 0 then CHR ''-'' # decimal (nat (- i)) else decimal (nat i))"

text \<open>The ignore list that both clients pass to \<open>utils.ShouldIgnore\<close>.\<close>

definition builtin_ignore :: "string list" where
  "builtin_ignore = [''.git/'', ''.DS_Store'', ''Thumbs.db'']"

section \<open>Google Drive client (package gdrive)\<close>

text \<open>
  The repository holds the client in two versions: \<open>src/unnamed/part_003\<close>, and
  \<open>src/internal/providers/gdrive/client.go\<close> at the path that the sync manager imports.
  They share the types, the lookups, \<open>DryRun\<close> and the walk function of \<open>Sync\<close>, and
  differ in \<open>createFolder\<close>, \<open>getFolderID\<close> and \<open>uploadFile\<close>. The definitions with the
  prefix \<open>gd_\<close> follow the first file; those of the second file that differ have the prefix
  \<open>gd2_\<close>.
\<close>

record drive_File =
  df_Id :: string
  df_Name :: string
  df_MimeType :: string
  df_Parents :: "string list"
  df_Md5Checksum :: string

text \<open>
  The calls of the Drive API that the client makes: \<open>Files.List\<close> with a query,
  \<open>Files.Create\<close> of a folder (no media) or of a file with media, and \<open>Files.Update\<close>
  of an existing file with media. The media is the open local file, which the client
  library reads while it sends the request; a call holds it as what reading it gives, a
  read error or the content.

  A call is one \<open>Do()\<close> of the client library, and the reply is what \<open>Do()\<close> returns.
  What the library does inside one \<open>Do()\<close> belongs to the service here: for media above
  its chunk size (16 MiB unless set otherwise, and the client sets nothing) it uploads in
  chunks and repeats a chunk that fails with a transient error for a limited time. No
  setting of the configuration reaches the library. When reading the media fails,
  \<open>Do()\<close> returns the read error (the text that the transport puts around it is left
  out) and the service has received no complete file.
\<close>

datatype drive_call =
    FilesList string
  | FilesCreate drive_File "(error + string) option"
  | FilesUpdate string drive_File "error + string"

record drive_Service =
  list_reply :: "drive_call list \<Rightarrow> string \<Rightarrow> error + drive_File list"
  create_reply :: "drive_call list \<Rightarrow> drive_File \<Rightarrow> string option \<Rightarrow> error + drive_File"
  update_reply :: "drive_call list \<Rightarrow> string \<Rightarrow> drive_File \<Rightarrow> string \<Rightarrow> error + drive_File"

record gdrive_Client =
  gd_service :: drive_Service
  gd_config :: GoogleDriveConfig

definition Files_List ::
  "gdrive_Client \<Rightarrow> string \<Rightarrow> drive_call world \<Rightarrow> (error + drive_File list) \<times> drive_call world" where
  "Files_List c query w =
     (list_reply (gd_service c) (calls w) query, w\<lparr>calls := calls w @ [FilesList query]\<rparr>)"

definition Files_Create ::
  "gdrive_Client \<Rightarrow> drive_File \<Rightarrow> (error + string) option \<Rightarrow> drive_call world
   \<Rightarrow> (error + drive_File) \<times> drive_call world" where
  "Files_Create c file media w =
     ((case media of
         None \<Rightarrow> create_reply (gd_service c) (calls w) file None
       | Some (Inl err) \<Rightarrow> Inl err
       | Some (Inr content) \<Rightarrow> create_reply (gd_service c) (calls w) file (Some content)),
      w\<lparr>calls := calls w @ [FilesCreate file media]\<rparr>)"

definition Files_Update ::
  "gdrive_Client \<Rightarrow> string \<Rightarrow> drive_File \<Rightarrow> error + string \<Rightarrow> drive_call world
   \<Rightarrow> (error + drive_File) \<times> drive_call world" where
  "Files_Update c fileId file media w =
     ((case media of
         Inl err \<Rightarrow> Inl err
       | Inr content \<Rightarrow> update_reply (gd_service c) (calls w) fileId file content),
      w\<lparr>calls := calls w @ [FilesUpdate fileId file media]\<rparr>)"

definition new_drive_File :: drive_File where
  "new_drive_File = \<lparr>df_Id = [], df_Name = [], df_MimeType = [], df_Parents = [], df_Md5Checksum = []\<rparr>"

definition first_Id :: "drive_File list \<Rightarrow> string" where
  "first_Id fs = (case fs of [] \<Rightarrow> [] | f # _ \<Rightarrow> df_Id f)"

definition gd_findFolder ::
  "gdrive_Client \<Rightarrow> string \<Rightarrow> string \<Rightarrow> drive_call world \<Rightarrow> (error + string) \<times> drive_call world" where
  "gd_findFolder c name parentID w =
     (case Files_List c
             (''name='' @ [CHR 0x27] @ name @ [CHR 0x27] @
              '' and mimeType='' @ [CHR 0x27] @ ''application/vnd.google-apps.folder'' @ [CHR 0x27] @
              '' and '' @ [CHR 0x27] @ parentID @ [CHR 0x27] @ '' in parents and trashed=false'') w of
        (Inl err, w1) \<Rightarrow> (Inl err, w1)
      | (Inr fs, w1) \<Rightarrow> (Inr (first_Id fs), w1))"

definition gd_findFile ::
  "gdrive_Client \<Rightarrow> string \<Rightarrow> string \<Rightarrow> drive_call world \<Rightarrow> (error + string) \<times> drive_call world" where
  "gd_findFile c name parentID w =
     (case Files_List c
             (''name='' @ [CHR 0x27] @ name @ [CHR 0x27] @
              '' and '' @ [CHR 0x27] @ parentID @ [CHR 0x27] @ '' in parents and trashed=false'') w of
        (Inl err, w1) \<Rightarrow> (Inl err, w1)
      | (Inr fs, w1) \<Rightarrow> (Inr (first_Id fs), w1))"

definition gd_root :: "gdrive_Client \<Rightarrow> string" where
  "gd_root c = (if gd_FolderID (gd_config c) = [] then ''root'' else gd_FolderID (gd_config c))"

text \<open>The loop of \<open>createFolder\<close> over the elements of the path.\<close>

fun gd_createFolder_loop ::
  "gdrive_Client \<Rightarrow> string list \<Rightarrow> string \<Rightarrow> drive_call world \<Rightarrow> error option \<times> drive_call world" where
  "gd_createFolder_loop c [] parentID w = (None, w)"
| "gd_createFolder_loop c (part # parts) parentID w =
     (if part = [] then gd_createFolder_loop c parts parentID w
      else
        (case gd_findFolder c part parentID w of
           (Inl err, w1) \<Rightarrow> (Some (Wrap ''failed to check for existing folder'' err), w1)
         | (Inr folderID, w1) \<Rightarrow>
             if folderID \<noteq> [] then gd_createFolder_loop c parts folderID w1
             else
               (case Files_Create c
                       (new_drive_File\<lparr>df_Name := part,
                          df_MimeType := ''application/vnd.google-apps.folder'',
                          df_Parents := [parentID]\<rparr>) None w1 of
                  (Inl err, w2) \<Rightarrow> (Some (Wrap (''failed to create folder '' @ part) err), w2)
                | (Inr createdFolder, w2) \<Rightarrow>
                    gd_createFolder_loop c parts (df_Id createdFolder)
                      (log_Printf ''Created folder: %s'' [S part] w2))))"

definition gd_createFolder ::
  "gdrive_Client \<Rightarrow> string \<Rightarrow> drive_call world \<Rightarrow> error option \<times> drive_call world" where
  "gd_createFolder c folderPath w =
     gd_createFolder_loop c (Split folderPath (CHR ''/'')) (gd_root c) w"

fun gd_getFolderID_loop ::
  "gdrive_Client \<Rightarrow> string list \<Rightarrow> string \<Rightarrow> drive_call world \<Rightarrow> (error + string) \<times> drive_call world" where
  "gd_getFolderID_loop c [] parentID w = (Inr parentID, w)"
| "gd_getFolderID_loop c (part # parts) parentID w =
     (if part = [] then gd_getFolderID_loop c parts parentID w
      else
        (case gd_findFolder c part parentID w of
           (Inl err, w1) \<Rightarrow> (Inl err, w1)
         | (Inr folderID, w1) \<Rightarrow>
             if folderID = [] then (Inl (Err (''folder not found: '' @ part)), w1)
             else gd_getFolderID_loop c parts folderID w1))"

definition gd_getFolderID ::
  "gdrive_Client \<Rightarrow> string \<Rightarrow> drive_call world \<Rightarrow> (error + string) \<times> drive_call world" where
  "gd_getFolderID c folderPath0 w =
     (let basePath = gd_DestinationPath (gd_config c);
          folderPath = (if basePath \<noteq> [] then Join2 basePath folderPath0 else folderPath0)
      in gd_getFolderID_loop c (Split (Trim_slash folderPath) (CHR ''/'')) (gd_root c) w)"

text \<open>
  \<open>uploadFile\<close>: the local file is the entry of the walk; \<open>remotePath\<close> is its
  relative path. An existing remote file of that name in the parent folder is updated
  with the media, otherwise a new file is created with it. Opening the file can fail
  before any call; reading it can fail when the media is sent. \<open>Stat\<close> on the open file
  is taken to succeed. \<open>gd_upload_media\<close> is the last step, after the look-up of the remote
  file, and \<open>gd_find_and_upload\<close> the look-up with that step.
\<close>

definition gd_upload_media ::
  "gdrive_Client \<Rightarrow> error + string \<Rightarrow> string \<Rightarrow> string \<Rightarrow> int \<Rightarrow> string \<Rightarrow> drive_call world
   \<Rightarrow> error option \<times> drive_call world" where
  "gd_upload_media c file remotePath parentID fileSize existingFileID w =
     (let driveFile = new_drive_File\<lparr>df_Name := Base remotePath, df_Parents := [parentID]\<rparr>
      in if existingFileID \<noteq> []
         then (case Files_Update c existingFileID driveFile file w of
                 (Inl err, w1) \<Rightarrow> (Some (Wrap ''failed to update file'' err), w1)
               | (Inr _, w1) \<Rightarrow> (None, log_Printf ''Updated file: %s'' [S remotePath] w1))
         else (case Files_Create c driveFile (Some file) w of
                 (Inl err, w1) \<Rightarrow> (Some (Wrap ''failed to upload file'' err), w1)
               | (Inr _, w1) \<Rightarrow>
                   (None, log_Printf ''Uploaded file: %s (%d bytes)'' [S remotePath, D fileSize] w1)))"

definition gd_find_and_upload ::
  "gdrive_Client \<Rightarrow> error + string \<Rightarrow> string \<Rightarrow> string \<Rightarrow> int \<Rightarrow> drive_call world
   \<Rightarrow> error option \<times> drive_call world" where
  "gd_find_and_upload c file remotePath parentID fileSize w =
     (case gd_findFile c (Base remotePath) parentID w of
        (Inl err, w1) \<Rightarrow> (Some (Wrap ''failed to check for existing file'' err), w1)
      | (Inr existingFileID, w1) \<Rightarrow>
          gd_upload_media c file remotePath parentID fileSize existingFileID w1)"

definition gd_uploadFile ::
  "gdrive_Client \<Rightarrow> fsnode \<Rightarrow> string \<Rightarrow> drive_call world \<Rightarrow> error option \<times> drive_call world" where
  "gd_uploadFile c localFile remotePath w =
     (case os_Open localFile of
        Inl err \<Rightarrow> (Some (Wrap ''failed to open file'' err), w)
      | Inr file \<Rightarrow>
          (let dir = Dir remotePath in
           if dir \<noteq> ''.''
           then (case gd_createFolder c dir w of
                   (Some err, w1) \<Rightarrow> (Some (Wrap ''failed to create parent folders'' err), w1)
                 | (None, w1) \<Rightarrow>
                     (case gd_getFolderID c dir w1 of
                        (Inl err, w2) \<Rightarrow> (Some (Wrap ''failed to get parent folder ID'' err), w2)
                      | (Inr folderID, w2) \<Rightarrow>
                          gd_find_and_upload c file remotePath folderID (info_Size localFile) w2))
           else gd_find_and_upload c file remotePath (gd_root c) (info_Size localFile) w))"

text \<open>The walk functions of \<open>Sync\<close> and \<open>DryRun\<close>.\<close>

definition as_walk_result :: "error option \<times> 'w \<Rightarrow> walk_result \<times> 'w" where
  "as_walk_result r = (case r of (None, w) \<Rightarrow> (Continue, w) | (Some err, w) \<Rightarrow> (Abort err, w))"

definition gd_sync_walkFn :: "gdrive_Client \<Rightarrow> string \<Rightarrow> (drive_call world) WalkFunc" where
  "gd_sync_walkFn c sourcePath relPath info err w =
     (case err of
        Some e \<Rightarrow> (Abort (Wrap (''error accessing path '' @ abs_path sourcePath relPath) e), w)
      | None \<Rightarrow>
          if relPath = ''.'' then (Continue, w)
          else if ShouldIgnore relPath builtin_ignore
          then (if info_IsDir info then (SkipDir, w) else (Continue, w))
          else if info_IsDir info then as_walk_result (gd_createFolder c relPath w)
          else as_walk_result (gd_uploadFile c info relPath w))"

definition gd_Sync ::
  "gdrive_Client \<Rightarrow> string \<Rightarrow> fsnode \<Rightarrow> drive_call world \<Rightarrow> error option \<times> drive_call world" where
  "gd_Sync c sourcePath root w =
     Walk (gd_sync_walkFn c sourcePath) root
       (log_Printf ''Starting Google Drive sync from: %s'' [S sourcePath] w)"

definition gd_dryrun_walkFn :: "gdrive_Client \<Rightarrow> string \<Rightarrow> (drive_call world) WalkFunc" where
  "gd_dryrun_walkFn c sourcePath relPath info err w =
     (case err of
        Some e \<Rightarrow> (Abort (Wrap (''error accessing path '' @ abs_path sourcePath relPath) e), w)
      | None \<Rightarrow>
          if relPath = ''.'' then (Continue, w)
          else if ShouldIgnore relPath builtin_ignore
          then (if info_IsDir info then (SkipDir, w) else (Continue, w))
          else if info_IsDir info
          then (Continue, log_Printf ''[DRY RUN] Would create folder: %s'' [S relPath] w)
          else (Continue,
                log_Printf ''[DRY RUN] Would upload file: %s (%d bytes)''
                  [S relPath, D (info_Size info)] w))"

definition gd_DryRun ::
  "gdrive_Client \<Rightarrow> string \<Rightarrow> fsnode \<Rightarrow> drive_call world \<Rightarrow> error option \<times> drive_call world" where
  "gd_DryRun c sourcePath root w =
     Walk (gd_dryrun_walkFn c sourcePath) root
       (log_Printf ''DRY RUN: Google Drive sync from: %s'' [S sourcePath] w)"

subsection \<open>The client at the package path\<close>

text \<open>
  \<open>createFolder\<close> trims the separators at both ends of the path and logs through
  \<open>utils.LogVerbose\<close>; \<open>getFolderID\<close> starts from the configured folder and does not put the
  destination path in front.
\<close>

fun gd2_createFolder_loop ::
  "gdrive_Client \<Rightarrow> string list \<Rightarrow> string \<Rightarrow> drive_call world \<Rightarrow> error option \<times> drive_call world" where
  "gd2_createFolder_loop c [] parentID w = (None, w)"
| "gd2_createFolder_loop c (part # parts) parentID w =
     (if part = [] then gd2_createFolder_loop c parts parentID w
      else
        (case gd_findFolder c part parentID w of
           (Inl err, w1) \<Rightarrow> (Some (Wrap ''failed to check for existing folder'' err), w1)
         | (Inr folderID, w1) \<Rightarrow>
             if folderID \<noteq> [] then gd2_createFolder_loop c parts folderID w1
             else
               (case Files_Create c
                       (new_drive_File\<lparr>df_Name := part,
                          df_MimeType := ''application/vnd.google-apps.folder'',
                          df_Parents := [parentID]\<rparr>) None w1 of
                  (Inl err, w2) \<Rightarrow> (Some (Wrap (''failed to create folder '' @ part) err), w2)
                | (Inr createdFolder, w2) \<Rightarrow>
                    gd2_createFolder_loop c parts (df_Id createdFolder)
                      (LogVerbose ''Created folder: %s'' [S part] w2))))"

definition gd2_createFolder ::
  "gdrive_Client \<Rightarrow> string \<Rightarrow> drive_call world \<Rightarrow> error option \<times> drive_call world" where
  "gd2_createFolder c folderPath w =
     gd2_createFolder_loop c (Split (Trim_slash folderPath) (CHR ''/'')) (gd_root c) w"

definition gd2_getFolderID ::
  "gdrive_Client \<Rightarrow> string \<Rightarrow> drive_call world \<Rightarrow> (error + string) \<times> drive_call world" where
  "gd2_getFolderID c folderPath w =
     gd_getFolderID_loop c (Split (Trim_slash folderPath) (CHR ''/'')) (gd_root c) w"

text \<open>
  \<open>createFolderInParent\<close> creates the folders of a path below a given parent and
  returns the id of the last one.
\<close>

fun createFolderInParent_loop ::
  "gdrive_Client \<Rightarrow> string list \<Rightarrow> string \<Rightarrow> drive_call world
   \<Rightarrow> (error + string) \<times> drive_call world" where
  "createFolderInParent_loop c [] currentParent w = (Inr currentParent, w)"
| "createFolderInParent_loop c (part # parts) currentParent w =
     (if part = [] then createFolderInParent_loop c parts currentParent w
      else
        (case gd_findFolder c part currentParent w of
           (Inl err, w1) \<Rightarrow> (Inl (Wrap ''failed to check for existing folder'' err), w1)
         | (Inr folderID, w1) \<Rightarrow>
             if folderID \<noteq> [] then createFolderInParent_loop c parts folderID w1
             else
               (case Files_Create c
                       (new_drive_File\<lparr>df_Name := part,
                          df_MimeType := ''application/vnd.google-apps.folder'',
                          df_Parents := [currentParent]\<rparr>) None w1 of
                  (Inl err, w2) \<Rightarrow> (Inl (Wrap (''failed to create folder '' @ part) err), w2)
                | (Inr createdFolder, w2) \<Rightarrow>
                    createFolderInParent_loop c parts (df_Id createdFolder)
                      (LogVerbose ''Created folder: %s'' [S part] w2))))"

definition createFolderInParent ::
  "gdrive_Client \<Rightarrow> string \<Rightarrow> string \<Rightarrow> drive_call world
   \<Rightarrow> (error + string) \<times> drive_call world" where
  "createFolderInParent c folderPath parentID w =
     createFolderInParent_loop c (Split (Trim_slash folderPath) (CHR ''/'')) parentID w"

text \<open>
  \<open>uploadFile\<close> creates and looks up the destination path first, then the folders of
  the file's directory below it. An existing remote file is updated with the media and a
  \<open>drive.File\<close> that has the name only; otherwise the file is created in the parent
  folder. The two lines logged after the upload start with an arrow and a check mark
  (three bytes each in UTF-8). \<open>gd2_parent\<close> is the part up to the parent folder's id,
  \<open>gd2_upload_media\<close> the last step.
\<close>

definition gd2_upload_media ::
  "gdrive_Client \<Rightarrow> error + string \<Rightarrow> string \<Rightarrow> string \<Rightarrow> int \<Rightarrow> string \<Rightarrow> drive_call world
   \<Rightarrow> error option \<times> drive_call world" where
  "gd2_upload_media c file remotePath parentID fileSize existingFileID w =
     (if existingFileID \<noteq> []
      then (case Files_Update c existingFileID (new_drive_File\<lparr>df_Name := Base remotePath\<rparr>)
                   file w of
              (Inl err, w1) \<Rightarrow> (Some (Wrap ''failed to update file'' err), w1)
            | (Inr _, w1) \<Rightarrow>
                (None,
                 LogInfo (''[GDRIVE] '' @ [CHR 0xE2, CHR 0x9C, CHR 0x93] @ '' %s (%d bytes)'')
                   [S remotePath, D fileSize]
                   (LogInfo (''[GDRIVE] '' @ [CHR 0xE2, CHR 0x86, CHR 0x92] @ '' %s (%d bytes)'')
                      [S remotePath, D fileSize] w1)))
      else (case Files_Create c
                   (new_drive_File\<lparr>df_Name := Base remotePath, df_Parents := [parentID]\<rparr>)
                   (Some file) w of
              (Inl err, w1) \<Rightarrow> (Some (Wrap ''failed to upload file'' err), w1)
            | (Inr _, w1) \<Rightarrow>
                (None,
                 LogInfo (''[GDRIVE] '' @ [CHR 0xE2, CHR 0x9C, CHR 0x93] @ '' %s (%d bytes)'')
                   [S remotePath, D fileSize]
                   (LogInfo (''[GDRIVE] '' @ [CHR 0xE2, CHR 0x86, CHR 0x92] @ '' %s (%d bytes)'')
                      [S remotePath, D fileSize] w1))))"

definition gd2_parent ::
  "gdrive_Client \<Rightarrow> string \<Rightarrow> drive_call world \<Rightarrow> (error + string) \<times> drive_call world" where
  "gd2_parent c remotePath w =
     (case (if gd_DestinationPath (gd_config c) \<noteq> []
            then (case gd2_createFolder c (gd_DestinationPath (gd_config c)) w of
                    (Some err, w1) \<Rightarrow> (Inl (Wrap ''failed to create destination folders'' err), w1)
                  | (None, w1) \<Rightarrow>
                      (case gd2_getFolderID c (gd_DestinationPath (gd_config c)) w1 of
                         (Inl err, w2) \<Rightarrow>
                           (Inl (Wrap ''failed to find destination folder'' err), w2)
                       | (Inr destFolderID, w2) \<Rightarrow> (Inr destFolderID, w2)))
            else (Inr (gd_root c), w)) of
        (Inl err, w2) \<Rightarrow> (Inl err, w2)
      | (Inr parentID, w2) \<Rightarrow>
          (let dir = Dir remotePath in
           if dir \<noteq> ''.''
           then (case createFolderInParent c dir parentID w2 of
                   (Inl err, w3) \<Rightarrow> (Inl (Wrap ''failed to create parent folders'' err), w3)
                 | (Inr subFolderID, w3) \<Rightarrow> (Inr subFolderID, w3))
           else (Inr parentID, w2)))"

definition gd2_uploadFile ::
  "gdrive_Client \<Rightarrow> fsnode \<Rightarrow> string \<Rightarrow> drive_call world \<Rightarrow> error option \<times> drive_call world" where
  "gd2_uploadFile c localFile remotePath w =
     (case os_Open localFile of
        Inl err \<Rightarrow> (Some (Wrap ''failed to open file'' err), w)
      | Inr file \<Rightarrow>
          (case gd2_parent c remotePath w of
             (Inl err, w1) \<Rightarrow> (Some err, w1)
           | (Inr parentID, w1) \<Rightarrow>
               (case gd_findFile c (Base remotePath) parentID
                       (LogVerbose ''Final upload parent folder ID: %s (destination_path: %s)''
                          [S parentID, S (gd_DestinationPath (gd_config c))] w1) of
                  (Inl err, w2) \<Rightarrow> (Some (Wrap ''failed to check for existing file'' err), w2)
                | (Inr existingFileID, w2) \<Rightarrow>
                    gd2_upload_media c file remotePath parentID (info_Size localFile)
                      existingFileID w2)))"

definition gd2_sync_walkFn :: "gdrive_Client \<Rightarrow> string \<Rightarrow> (drive_call world) WalkFunc" where
  "gd2_sync_walkFn c sourcePath relPath info err w =
     (case err of
        Some e \<Rightarrow> (Abort (Wrap (''error accessing path '' @ abs_path sourcePath relPath) e), w)
      | None \<Rightarrow>
          if relPath = ''.'' then (Continue, w)
          else if ShouldIgnore relPath builtin_ignore
          then (if info_IsDir info then (SkipDir, w) else (Continue, w))
          else if info_IsDir info then as_walk_result (gd2_createFolder c relPath w)
          else as_walk_result (gd2_uploadFile c info relPath w))"

definition gd2_Sync ::
  "gdrive_Client \<Rightarrow> string \<Rightarrow> fsnode \<Rightarrow> drive_call world \<Rightarrow> error option \<times> drive_call world" where
  "gd2_Sync c sourcePath root w =
     Walk (gd2_sync_walkFn c sourcePath) root
       (LogVerbose ''Starting Google Drive sync from: %s'' [S sourcePath] w)"


section \<open>pCloud client (package pcloud)\<close>

text \<open>
  The client of \<open>src/unnamed/part_004\<close>. The file at the package path,
  \<open>src/internal/providers/pcloud/client.go\<close>, has the same \<open>Sync\<close> and \<open>DryRun\<close> and
  sends the same requests in the same order; its \<open>createFolder\<close>, \<open>uploadFile\<close> and
  \<open>findFolder\<close> log more lines (debug lines in verbose mode, and a line before the
  upload), and \<open>findFolder\<close> words the error of a refused listing differently.

  The requests that the client sends (each carries the credentials of the
  configuration, to the configured host): \<open>createfolder\<close> with a name and the parent's
  id, \<open>listfolder\<close> with a folder id, \<open>uploadfile\<close> with the folder id, the file name
  and the content. A reply is an error of the transport, a body that cannot be decoded,
  or the decoded body.
\<close>

datatype pcloud_call =
    CreateFolderReq string string
  | ListFolderReq string
  | UploadFileReq string string string

datatype 'a http_reply = TransportError error | DecodeError error | Decoded 'a

text \<open>
  Folder ids are \<open>int64\<close>. The field \<open>Result\<close> is a Go \<open>int\<close>, of which the client
  only asks whether it is zero.
\<close>

record FolderResponse =
  fr_Result :: int
  fr_Error :: string
  fr_FolderID :: "64 word"

record FileResponse =
  fi_Result :: int
  fi_Error :: string

text \<open>
  The body of \<open>listfolder\<close> is decoded into a generic map; each of the values that
  \<open>findFolder\<close> reads is present with the expected type, or not. Numbers of a generic
  map are \<open>float64\<close>: of \<open>result\<close> the client only asks whether it is zero, and
  \<open>folderid\<close> it converts with \<open>int64()\<close>; \<open>li_folderid\<close> is the number after that
  conversion.
\<close>

record list_item =
  li_name :: "string option"
  li_isfolder :: "bool option"
  li_folderid :: "64 word option"

record ListResponse =
  lr_result :: "int option"
  lr_contents :: "list_item list option"

record pcloud_Service =
  createfolder_reply :: "pcloud_call list \<Rightarrow> string \<Rightarrow> string \<Rightarrow> FolderResponse http_reply"
  listfolder_reply :: "pcloud_call list \<Rightarrow> string \<Rightarrow> ListResponse http_reply"
  uploadfile_reply :: "pcloud_call list \<Rightarrow> string \<Rightarrow> string \<Rightarrow> string \<Rightarrow> FileResponse http_reply"

record pcloud_Client =
  pc_service :: pcloud_Service
  pc_config :: PCloudConfig

definition pc_request_createfolder ::
  "pcloud_Client \<Rightarrow> string \<Rightarrow> string \<Rightarrow> pcloud_call world
   \<Rightarrow> FolderResponse http_reply \<times> pcloud_call world" where
  "pc_request_createfolder c name folderid w =
     (createfolder_reply (pc_service c) (calls w) name folderid,
      w\<lparr>calls := calls w @ [CreateFolderReq name folderid]\<rparr>)"

definition pc_request_listfolder ::
  "pcloud_Client \<Rightarrow> string \<Rightarrow> pcloud_call world \<Rightarrow> ListResponse http_reply \<times> pcloud_call world" where
  "pc_request_listfolder c folderid w =
     (listfolder_reply (pc_service c) (calls w) folderid,
      w\<lparr>calls := calls w @ [ListFolderReq folderid]\<rparr>)"

definition pc_request_uploadfile ::
  "pcloud_Client \<Rightarrow> string \<Rightarrow> string \<Rightarrow> string \<Rightarrow> pcloud_call world
   \<Rightarrow> FileResponse http_reply \<times> pcloud_call world" where
  "pc_request_uploadfile c folderid fileName content w =
     (uploadfile_reply (pc_service c) (calls w) folderid fileName content,
      w\<lparr>calls := calls w @ [UploadFileReq folderid fileName content]\<rparr>)"

fun find_folder_item :: "string \<Rightarrow> list_item list \<Rightarrow> string" where
  "find_folder_item name [] = []"
| "find_folder_item name (item # items) =
     (if li_name item = Some name \<and> li_isfolder item = Some True
      then (case li_folderid item of
              Some folderID \<Rightarrow> FormatInt (sint folderID)
            | None \<Rightarrow> find_folder_item name items)
      else find_folder_item name items)"

definition pc_findFolder ::
  "pcloud_Client \<Rightarrow> string \<Rightarrow> string \<Rightarrow> pcloud_call world \<Rightarrow> (error + string) \<times> pcloud_call world" where
  "pc_findFolder c name parentFolderID w =
     (case pc_request_listfolder c parentFolderID w of
        (TransportError err, w1) \<Rightarrow> (Inl (Wrap ''failed to list folder'' err), w1)
      | (DecodeError err, w1) \<Rightarrow> (Inl (Wrap ''failed to decode folder list'' err), w1)
      | (Decoded result, w1) \<Rightarrow>
          if lr_result result \<noteq> Some 0 then (Inl (Err ''folder list failed''), w1)
          else (case lr_contents result of
                  None \<Rightarrow> (Inr [], w1)
                | Some contents \<Rightarrow> (Inr (find_folder_item name contents), w1)))"

definition pc_root :: "pcloud_Client \<Rightarrow> string" where
  "pc_root c = (if pc_FolderID (pc_config c) = [] then ''0'' else pc_FolderID (pc_config c))"

fun pc_createFolder_loop ::
  "pcloud_Client \<Rightarrow> string list \<Rightarrow> string \<Rightarrow> pcloud_call world \<Rightarrow> error option \<times> pcloud_call world" where
  "pc_createFolder_loop c [] parentFolderID w = (None, w)"
| "pc_createFolder_loop c (part # parts) parentFolderID w =
     (if part = [] then pc_createFolder_loop c parts parentFolderID w
      else
        (case pc_findFolder c part parentFolderID w of
           (Inl err, w1) \<Rightarrow> (Some (Wrap ''failed to check for existing folder'' err), w1)
         | (Inr folderID, w1) \<Rightarrow>
             if folderID \<noteq> [] then pc_createFolder_loop c parts folderID w1
             else
               (case pc_request_createfolder c part parentFolderID w1 of
                  (TransportError err, w2) \<Rightarrow>
                    (Some (Wrap ''failed to create folder request'' err), w2)
                | (DecodeError err, w2) \<Rightarrow>
                    (Some (Wrap ''failed to decode folder response'' err), w2)
                | (Decoded folderResp, w2) \<Rightarrow>
                    if fr_Result folderResp \<noteq> 0
                    then (Some (Err (''failed to create folder '' @ part @ '': '' @
                                      fr_Error folderResp)), w2)
                    else pc_createFolder_loop c parts (FormatInt (sint (fr_FolderID folderResp)))
                           (LogVerbose ''Created folder: %s'' [S part] w2))))"

definition pc_createFolder ::
  "pcloud_Client \<Rightarrow> string \<Rightarrow> pcloud_call world \<Rightarrow> error option \<times> pcloud_call world" where
  "pc_createFolder c folderPath w =
     pc_createFolder_loop c (Split folderPath (CHR ''/'')) (pc_root c) w"

fun pc_getFolderID_loop ::
  "pcloud_Client \<Rightarrow> string list \<Rightarrow> string \<Rightarrow> pcloud_call world \<Rightarrow> (error + string) \<times> pcloud_call world" where
  "pc_getFolderID_loop c [] parentFolderID w = (Inr parentFolderID, w)"
| "pc_getFolderID_loop c (part # parts) parentFolderID w =
     (if part = [] then pc_getFolderID_loop c parts parentFolderID w
      else
        (case pc_findFolder c part parentFolderID w of
           (Inl err, w1) \<Rightarrow> (Inl err, w1)
         | (Inr folderID, w1) \<Rightarrow>
             if folderID = [] then (Inl (Err (''folder not found: '' @ part)), w1)
             else pc_getFolderID_loop c parts folderID w1))"

definition pc_getFolderIDDirect ::
  "pcloud_Client \<Rightarrow> string \<Rightarrow> pcloud_call world \<Rightarrow> (error + string) \<times> pcloud_call world" where
  "pc_getFolderIDDirect c folderPath w =
     pc_getFolderID_loop c (Split (Trim_slash folderPath) (CHR ''/'')) (pc_root c) w"

definition pc_targetPath :: "pcloud_Client \<Rightarrow> string \<Rightarrow> string" where
  "pc_targetPath c remotePath =
     (if pc_DestinationPath (pc_config c) \<noteq> []
      then (let dir = Dir remotePath
            in if dir = ''.'' then pc_DestinationPath (pc_config c)
               else Join2 (pc_DestinationPath (pc_config c)) dir)
      else Dir remotePath)"

text \<open>
  \<open>uploadFile\<close> opens the local file, creates and looks up the target folder, copies
  the file into the body of the request (where reading can fail) and sends the request.
  \<open>pc_upload_request\<close> is the last step, the upload request and its reply. The format of
  the success line starts with a check mark (three bytes in UTF-8). \<open>Stat\<close> on the open
  file is taken to succeed.
\<close>

definition pc_upload_request ::
  "pcloud_Client \<Rightarrow> string \<Rightarrow> string \<Rightarrow> int \<Rightarrow> string \<Rightarrow> pcloud_call world
   \<Rightarrow> error option \<times> pcloud_call world" where
  "pc_upload_request c content remotePath fileSize parentFolderID w =
     (case pc_request_uploadfile c parentFolderID (Base remotePath) content w of
        (TransportError err, w1) \<Rightarrow> (Some (Wrap ''upload request failed'' err), w1)
      | (DecodeError err, w1) \<Rightarrow> (Some (Wrap ''failed to decode upload response'' err), w1)
      | (Decoded fileResp, w1) \<Rightarrow>
          if fi_Result fileResp \<noteq> 0
          then (Some (Err (''upload failed: '' @ fi_Error fileResp)), w1)
          else (None,
                LogInfo ([CHR 0xE2, CHR 0x9C, CHR 0x93] @ '' %s (%d bytes)'')
                  [S remotePath, D fileSize] w1))"

definition pc_uploadFile ::
  "pcloud_Client \<Rightarrow> fsnode \<Rightarrow> string \<Rightarrow> pcloud_call world \<Rightarrow> error option \<times> pcloud_call world" where
  "pc_uploadFile c localFile remotePath w =
     (case os_Open localFile of
        Inl err \<Rightarrow> (Some (Wrap ''failed to open file'' err), w)
      | Inr file \<Rightarrow>
          (case pc_createFolder c (pc_targetPath c remotePath) w of
             (Some err, w1) \<Rightarrow> (Some (Wrap ''failed to create target folders'' err), w1)
           | (None, w1) \<Rightarrow>
               (case pc_getFolderIDDirect c (pc_targetPath c remotePath) w1 of
                  (Inl err, w2) \<Rightarrow> (Some (Wrap ''failed to get target folder ID'' err), w2)
                | (Inr parentFolderID, w2) \<Rightarrow>
                    (case file of
                       Inl err \<Rightarrow> (Some (Wrap ''failed to copy file data'' err), w2)
                     | Inr content \<Rightarrow>
                         pc_upload_request c content remotePath (info_Size localFile)
                           parentFolderID w2))))"

definition pc_sync_walkFn :: "pcloud_Client \<Rightarrow> string \<Rightarrow> (pcloud_call world) WalkFunc" where
  "pc_sync_walkFn c sourcePath relPath info err w =
     (case err of
        Some e \<Rightarrow> (Abort (Wrap (''error accessing path '' @ abs_path sourcePath relPath) e), w)
      | None \<Rightarrow>
          if relPath = ''.'' then (Continue, w)
          else if ShouldIgnore relPath builtin_ignore
          then (if info_IsDir info then (SkipDir, w) else (Continue, w))
          else if info_IsDir info then as_walk_result (pc_createFolder c relPath w)
          else as_walk_result (pc_uploadFile c info relPath w))"

definition pc_Sync ::
  "pcloud_Client \<Rightarrow> string \<Rightarrow> fsnode \<Rightarrow> pcloud_call world \<Rightarrow> error option \<times> pcloud_call world" where
  "pc_Sync c sourcePath root w =
     Walk (pc_sync_walkFn c sourcePath) root
       (LogVerbose ''Starting pCloud sync from: %s'' [S sourcePath] w)"

text \<open>The formats of the dry run start with an arrow (three bytes in UTF-8).\<close>

definition pc_dryrun_walkFn :: "pcloud_Client \<Rightarrow> string \<Rightarrow> (pcloud_call world) WalkFunc" where
  "pc_dryrun_walkFn c sourcePath relPath info err w =
     (case err of
        Some e \<Rightarrow> (Abort (Wrap (''error accessing path '' @ abs_path sourcePath relPath) e), w)
      | None \<Rightarrow>
          if relPath = ''.'' then (Continue, w)
          else if ShouldIgnore relPath builtin_ignore
          then (if info_IsDir info then (SkipDir, w) else (Continue, w))
          else if info_IsDir info
          then (Continue,
                LogInfo ([CHR 0xE2, CHR 0x86, CHR 0x92] @ '' %s/ (folder)'') [S relPath] w)
          else (Continue,
                LogInfo ([CHR 0xE2, CHR 0x86, CHR 0x92] @ '' %s (%d bytes)'')
                  [S relPath, D (info_Size info)] w))"

definition pc_DryRun ::
  "pcloud_Client \<Rightarrow> string \<Rightarrow> fsnode \<Rightarrow> pcloud_call world \<Rightarrow> error option \<times> pcloud_call world" where
  "pc_DryRun c sourcePath root w =
     Walk (pc_dryrun_walkFn c sourcePath) root
       (LogVerbose ''DRY RUN: pCloud sync from: %s'' [S sourcePath] w)"

section \<open>Sync manager (package sync)\<close>

text \<open>
  The manager makes a client from the provider's section of the configuration on first
  use. Making a client (credentials, token, authentication) is outside the model: it
  is a function from that section to the service or an error. The manager imports the
  clients by their package paths, so its Drive client is the one at the package path
  (\<open>gd2_Sync\<close>; \<open>DryRun\<close> is the same in both files). \<open>Sync\<close> and \<open>DryRun\<close> of pCloud
  are the same in both files.
\<close>

record Manager =
  config :: Config
  gdriveClient :: "gdrive_Client option"
  pcloudClient :: "pcloud_Client option"

definition NewManager :: "Config \<Rightarrow> Manager" where
  "NewManager cfg = \<lparr>config = cfg, gdriveClient = None, pcloudClient = None\<rparr>"

definition SyncToGoogleDrive ::
  "(GoogleDriveConfig \<Rightarrow> error + drive_Service) \<Rightarrow> Manager \<Rightarrow> string \<Rightarrow> fsnode \<Rightarrow> bool
   \<Rightarrow> drive_call world \<Rightarrow> error option \<times> Manager \<times> drive_call world" where
  "SyncToGoogleDrive newClient m sourcePath root dryRun w =
     (case (case gdriveClient m of
              Some client \<Rightarrow> Inr client
            | None \<Rightarrow>
                (case newClient (GoogleDrive (config m)) of
                   Inl err \<Rightarrow> Inl err
                 | Inr svc \<Rightarrow> Inr \<lparr>gd_service = svc, gd_config = GoogleDrive (config m)\<rparr>)) of
        Inl err \<Rightarrow> (Some (Wrap ''failed to create Google Drive client'' err), m, w)
      | Inr client \<Rightarrow>
          (let m1 = m\<lparr>gdriveClient := Some client\<rparr>
           in if dryRun
              then (case gd_DryRun client sourcePath root w of (r, w1) \<Rightarrow> (r, m1, w1))
              else (case gd2_Sync client sourcePath root w of (r, w1) \<Rightarrow> (r, m1, w1))))"

definition SyncToPCloud ::
  "(PCloudConfig \<Rightarrow> error + pcloud_Service) \<Rightarrow> Manager \<Rightarrow> string \<Rightarrow> fsnode \<Rightarrow> bool
   \<Rightarrow> pcloud_call world \<Rightarrow> error option \<times> Manager \<times> pcloud_call world" where
  "SyncToPCloud newClient m sourcePath root dryRun w =
     (case (case pcloudClient m of
              Some client \<Rightarrow> Inr client
            | None \<Rightarrow>
                (case newClient (PCloud (config m)) of
                   Inl err \<Rightarrow> Inl err
                 | Inr svc \<Rightarrow> Inr \<lparr>pc_service = svc, pc_config = PCloud (config m)\<rparr>)) of
        Inl err \<Rightarrow> (Some (Wrap ''failed to create pCloud client'' err), m, w)
      | Inr client \<Rightarrow>
          (let m1 = m\<lparr>pcloudClient := Some client\<rparr>
           in if dryRun
              then (case pc_DryRun client sourcePath root w of (r, w1) \<Rightarrow> (r, m1, w1))
              else (case pc_Sync client sourcePath root w of (r, w1) \<Rightarrow> (r, m1, w1))))"

section \<open>Upload calls and example services\<close>

text \<open>The calls that carry the media of a file.\<close>

fun gd_is_upload :: "drive_call \<Rightarrow> bool" where
  "gd_is_upload (FilesList query) = False"
| "gd_is_upload (FilesCreate file None) = False"
| "gd_is_upload (FilesCreate file (Some media)) = True"
| "gd_is_upload (FilesUpdate fileId file media) = True"

fun pc_is_upload :: "pcloud_call \<Rightarrow> bool" where
  "pc_is_upload (CreateFolderReq name folderid) = False"
| "pc_is_upload (ListFolderReq folderid) = False"
| "pc_is_upload (UploadFileReq folderid fileName content) = True"

text \<open>
  The name and the content that a call sends (nothing when it is no upload call, or when
  its media cannot be read), and the names and contents that a sequence of calls sends,
  in order.
\<close>

fun gd_sent :: "drive_call \<Rightarrow> (string \<times> string) option" where
  "gd_sent (FilesCreate file (Some (Inr content))) = Some (df_Name file, content)"
| "gd_sent (FilesUpdate fileId file (Inr content)) = Some (df_Name file, content)"
| "gd_sent c = None"

definition gd_uploads :: "drive_call list \<Rightarrow> (string \<times> string) list" where
  "gd_uploads cs = List.map_filter gd_sent cs"

fun pc_sent :: "pcloud_call \<Rightarrow> (string \<times> string) option" where
  "pc_sent (UploadFileReq folderid fileName content) = Some (fileName, content)"
| "pc_sent c = None"

definition pc_uploads :: "pcloud_call list \<Rightarrow> (string \<times> string) list" where
  "pc_uploads cs = List.map_filter pc_sent cs"



text \<open>
  The entries of a pass over a tree: those that the walk reaches under the built-in
  ignore list. The lines that a dry run logs for an entry. The name and the content that
  a pass is to send for an entry: those of a file that can be read; an entry can be
  transferred when it is not a file that cannot be opened or read.
\<close>

definition builtin_filter :: "string \<Rightarrow> bool \<Rightarrow> bool" where
  "builtin_filter relPath isDir = ShouldIgnore relPath builtin_ignore"

definition pass_entries :: "fsnode \<Rightarrow> (string \<times> fsnode) list" where
  "pass_entries root = reached builtin_filter ''.'' root"



fun file_to_send :: "string \<times> fsnode \<Rightarrow> (string \<times> string) option" where
  "file_to_send (relPath, FileNode n sz mt (Content content)) = Some (Base relPath, content)"
| "file_to_send (relPath, info) = None"


definition pass_files :: "fsnode \<Rightarrow> (string \<times> string) list" where
  "pass_files root = List.map_filter file_to_send (pass_entries root)"

definition empty_world :: "'call world" where
  "empty_world = \<lparr>calls = [], logged = [], verboseMode = False\<rparr>"

text \<open>An empty Drive that accepts every call.\<close>

definition example_drive :: drive_Service where
  "example_drive =
     \<lparr>list_reply = (\<lambda>history query. Inr []),
      create_reply = (\<lambda>history file media. Inr (file\<lparr>df_Id := ''id-'' @ df_Name file\<rparr>)),
      update_reply = (\<lambda>history fileId file media. Inr (file\<lparr>df_Id := fileId\<rparr>))\<rparr>"


text \<open>
  An empty pCloud that accepts every call: a listing shows the folders created so far
  in the listed folder (every new folder gets the id 7). The example clients of pCloud
  have the destination path \<open>backup\<close>.
\<close>

fun created_folders :: "pcloud_call list \<Rightarrow> string \<Rightarrow> list_item list" where
  "created_folders [] folderid = []"
| "created_folders (CreateFolderReq name parent # history) folderid =
     (if parent = folderid
      then \<lparr>li_name = Some name, li_isfolder = Some True, li_folderid = Some 7\<rparr> #
           created_folders history folderid
      else created_folders history folderid)"
| "created_folders (c # history) folderid = created_folders history folderid"

definition example_pcloud :: pcloud_Service where
  "example_pcloud =
     \<lparr>createfolder_reply =
        (\<lambda>history name folderid. Decoded \<lparr>fr_Result = 0, fr_Error = [], fr_FolderID = 7\<rparr>),
      listfolder_reply =
        (\<lambda>history folderid.
           Decoded \<lparr>lr_result = Some 0, lr_contents = Some (created_folders history folderid)\<rparr>),
      uploadfile_reply =
        (\<lambda>history folderid fileName content. Decoded \<lparr>fi_Result = 0, fi_Error = []\<rparr>)\<rparr>"

definition example_pcloud_client :: pcloud_Client where
  "example_pcloud_client = \<lparr>pc_service = example_pcloud, pc_config = (PCloud DefaultConfig)\<lparr>pc_DestinationPath := ''backup''\<rparr>\<rparr>"

text \<open>
  A Drive that already holds \<open>a.txt\<close> with the content \<open>hi\<close>: every listing returns
  that file, with the checksum of the content.
\<close>

definition remote_a_txt :: drive_File where
  "remote_a_txt =
     \<lparr>df_Id = ''id1'', df_Name = ''a.txt'', df_MimeType = ''text/plain'', df_Parents = [''root''],
      df_Md5Checksum = example_digest ''hi''\<rparr>"

definition drive_with_a_txt :: gdrive_Client where
  "drive_with_a_txt =
     \<lparr>gd_service = example_drive\<lparr>list_reply := (\<lambda>history query. Inr [remote_a_txt])\<rparr>,
      gd_config = GoogleDrive DefaultConfig\<rparr>"

text \<open>
  A Drive and a pCloud that refuse the file \<open>b.txt\<close>, and a tree of three files.
\<close>

definition drive_refusing_b_txt :: gdrive_Client where
  "drive_refusing_b_txt =
     \<lparr>gd_service = example_drive\<lparr>create_reply :=
        (\<lambda>history file media.
           if df_Name file = ''b.txt'' then Inl (Err ''storageQuotaExceeded'')
           else Inr (file\<lparr>df_Id := ''id-'' @ df_Name file\<rparr>))\<rparr>,
      gd_config = GoogleDrive DefaultConfig\<rparr>"

definition pcloud_refusing_b_txt :: pcloud_Client where
  "pcloud_refusing_b_txt =
     \<lparr>pc_service = example_pcloud\<lparr>uploadfile_reply :=
        (\<lambda>history folderid fileName content.
           if fileName = ''b.txt'' then Decoded \<lparr>fi_Result = 2008, fi_Error = ''User is over quota.''\<rparr>
           else Decoded \<lparr>fi_Result = 0, fi_Error = []\<rparr>)\<rparr>,
      pc_config = (PCloud DefaultConfig)\<lparr>pc_DestinationPath := ''backup''\<rparr>\<rparr>"

definition three_files :: fsnode where
  "three_files = DirNode ''src'' 4096 10
     [FileNode ''a.txt'' 2 11 (Content ''hi''),
      FileNode ''b.txt'' 2 12 (Content ''yo''),
      FileNode ''c.txt'' 2 13 (Content ''ok'')]"

text \<open>
  A Drive and a pCloud with a transient fault: the first attempt to upload a file fails,
  a repeated attempt succeeds.
\<close>

definition flaky_drive :: gdrive_Client where
  "flaky_drive =
     \<lparr>gd_service = example_drive\<lparr>create_reply :=
        (\<lambda>history file media.
           if FilesCreate file (map_option Inr media) \<in> set history
           then Inr (file\<lparr>df_Id := ''id-'' @ df_Name file\<rparr>)
           else Inl (Err ''503 Service Unavailable''))\<rparr>,
      gd_config = GoogleDrive DefaultConfig\<rparr>"

definition flaky_pcloud :: pcloud_Client where
  "flaky_pcloud =
     \<lparr>pc_service = example_pcloud\<lparr>uploadfile_reply :=
        (\<lambda>history folderid fileName content.
           if UploadFileReq folderid fileName content \<in> set history
           then Decoded \<lparr>fi_Result = 0, fi_Error = []\<rparr>
           else TransportError (Err ''connection reset by peer''))\<rparr>,
      pc_config = (PCloud DefaultConfig)\<lparr>pc_DestinationPath := ''backup''\<rparr>\<rparr>"

text \<open>One file, and the same file after its modification time has changed.\<close>

definition one_file :: fsnode where
  "one_file = DirNode ''src'' 4096 10 [FileNode ''a.txt'' 2 11 (Content ''hi'')]"

definition one_file_touched :: fsnode where
  "one_file_touched = DirNode ''src'' 4096 10 [FileNode ''a.txt'' 2 99 (Content ''hi'')]"


section \<open>Change watcher: debounced event delivery (package watcher)\<close>

text \<open>
  Times are nanoseconds on one clock, as \<open>int\<close>. The events channel of
  \<open>NewFileWatcher\<close> is buffered with capacity 100; it is modelled by the list of
  events that are queued and not yet received.
\<close>

datatype Operation = Create | Write | Remove | Rename | Chmod

record FileEvent =
  Name :: string
  Op :: Operation
  Time :: int

record FileWatcher =
  debounceMap :: "string \<rightharpoonup> int"
  events :: "FileEvent list"
  debounce :: int
  watcher_log :: "string list"

definition events_capacity :: nat where
  "events_capacity = 100"

definition NewFileWatcher :: FileWatcher where
  "NewFileWatcher =
     \<lparr>debounceMap = Map.empty, events = [], debounce = 2 * 1000000000, watcher_log = []\<rparr>"

text \<open>
  \<open>sendEvent\<close>: the argument \<open>now\<close> is the clock reading of \<open>time.Since\<close>. A
  suppressed event leaves the watcher as it is. An event that passes the filter is
  recorded in the debounce map first, and then sent without blocking: when the channel
  is full it is dropped and a warning is logged.
\<close>

definition sendEvent :: "FileWatcher \<Rightarrow> FileEvent \<Rightarrow> int \<Rightarrow> FileWatcher" where
  "sendEvent fw event now =
     (if (case debounceMap fw (Name event) of
            Some lastTime \<Rightarrow> now - lastTime < debounce fw
          | None \<Rightarrow> False)
      then fw
      else
        (let fw1 = fw\<lparr>debounceMap := (debounceMap fw)(Name event \<mapsto> Time event)\<rparr>
         in if length (events fw1) < events_capacity
            then fw1\<lparr>events := events fw1 @ [event]\<rparr>
            else fw1\<lparr>watcher_log := watcher_log fw1 @
                   [''Warning: Event channel full, dropping event for '' @ Name event]\<rparr>))"

text \<open>An event passes the debounce filter of a watcher at clock reading \<open>now\<close>.\<close>

definition passes_debounce :: "FileWatcher \<Rightarrow> FileEvent \<Rightarrow> int \<Rightarrow> bool" where
  "passes_debounce fw event now =
     (case debounceMap fw (Name event) of
        Some lastTime \<Rightarrow> \<not> (now - lastTime < debounce fw)
      | None \<Rightarrow> True)"

section \<open>Daemon loop (package daemon)\<close>

text \<open>
  \<open>Daemon.Start\<close> runs two loops. The main goroutine performs the initial sync and
  then waits in its \<open>select\<close>; on a tick of the ticker it performs a scheduled sync and
  waits again; on cancellation, a stop or a termination signal it returns. When the
  daemon has a watcher (watch mode), \<open>Start\<close> first launches \<open>runFileWatcher\<close> in a
  goroutine of its own, which waits for an event of the watcher, sleeps a second,
  performs a sync and waits again. \<open>performSync\<close> is an ordinary call in both loops and
  takes no lock.

  The state holds where each loop is, whether a tick waits in the ticker's channel
  (capacity 1) and how many events wait in the watcher's channel (capacity 100). The
  goroutines are interleaved: an action is one step of one loop, or the arrival of a
  tick or of a file event.
\<close>

datatype main_loop = InitialSync | Waiting | ScheduledSync | Returned

datatype watcher_loop = NoWatcher | Listening | Sleeping | WatcherSync | WatcherReturned

record daemon_state =
  main_at :: main_loop
  watcher_at :: watcher_loop
  tick_pending :: bool
  events_pending :: nat

datatype daemon_action =
    TickArrives
  | EventArrives
  | MainSyncReturns
  | MainTakesTick
  | MainReloadsConfig
  | MainStops
  | WatcherTakesEvent
  | WatcherWakes
  | WatcherSyncReturns
  | WatcherStops

text \<open>The state in which \<open>Start\<close> begins the initial sync.\<close>

definition Start_state :: "Config \<Rightarrow> daemon_state" where
  "Start_state cfg =
     \<lparr>main_at = InitialSync,
      watcher_at = (if IsWatchMode cfg then Listening else NoWatcher),
      tick_pending = False,
      events_pending = 0\<rparr>"

text \<open>
  One action; \<open>None\<close> when the action is not possible in the state. A tick that
  finds a tick waiting is dropped by the ticker, an event that finds the channel full is
  dropped by \<open>sendEvent\<close>; without a watcher there are no events.
\<close>

fun daemon_step :: "daemon_action \<Rightarrow> daemon_state \<Rightarrow> daemon_state option" where
  "daemon_step TickArrives s = Some (s\<lparr>tick_pending := True\<rparr>)"
| "daemon_step EventArrives s =
     (if watcher_at s = NoWatcher then None
      else if events_pending s < events_capacity
      then Some (s\<lparr>events_pending := Suc (events_pending s)\<rparr>)
      else Some s)"
| "daemon_step MainSyncReturns s =
     (if main_at s = InitialSync \<or> main_at s = ScheduledSync
      then Some (s\<lparr>main_at := Waiting\<rparr>) else None)"
| "daemon_step MainTakesTick s =
     (if main_at s = Waiting \<and> tick_pending s
      then Some (s\<lparr>main_at := ScheduledSync, tick_pending := False\<rparr>) else None)"
| "daemon_step MainReloadsConfig s = (if main_at s = Waiting then Some s else None)"
| "daemon_step MainStops s =
     (if main_at s = Waiting then Some (s\<lparr>main_at := Returned\<rparr>) else None)"
| "daemon_step WatcherTakesEvent s =
     (if watcher_at s = Listening \<and> 0 < events_pending s
      then Some (s\<lparr>watcher_at := Sleeping, events_pending := events_pending s - 1\<rparr>)
      else None)"
| "daemon_step WatcherWakes s =
     (if watcher_at s = Sleeping then Some (s\<lparr>watcher_at := WatcherSync\<rparr>) else None)"
| "daemon_step WatcherSyncReturns s =
     (if watcher_at s = WatcherSync then Some (s\<lparr>watcher_at := Listening\<rparr>) else None)"
| "daemon_step WatcherStops s =
     (if watcher_at s = Listening then Some (s\<lparr>watcher_at := WatcherReturned\<rparr>) else None)"

fun daemon_run :: "daemon_action list \<Rightarrow> daemon_state \<Rightarrow> daemon_state option" where
  "daemon_run [] s = Some s"
| "daemon_run (a # as) s =
     (case daemon_step a s of None \<Rightarrow> None | Some s1 \<Rightarrow> daemon_run as s1)"

text \<open>The number of calls of \<open>performSync\<close> that are under way.\<close>

definition active_passes :: "daemon_state \<Rightarrow> nat" where
  "active_passes s =
     (if main_at s = InitialSync \<or> main_at s = ScheduledSync then 1 else 0) +
     (if watcher_at s = WatcherSync then 1 else 0)"

definition watch_mode_config :: Config where
  "watch_mode_config =
     DefaultConfig\<lparr>Daemon := Some \<lparr>Enabled = True, SyncInterval = ''5m'', WatchMode = True,
                                      PidFile = ''csync.pid''\<rparr>\<rparr>"

section \<open>Facts about the matchers\<close>

lemma scan_length_literal:
  "literal_pattern pattern \<Longrightarrow> scan_length inrange pattern = length pattern"
  by (induction inrange pattern rule: scan_length.induct)
     (auto simp: literal_pattern_def split: list.splits)

lemma scanChunk_literal:
  assumes "literal_pattern pattern"
  shows "scanChunk pattern = (False, pattern, [])"
proof -
  from assms have "dropWhile (\<lambda>c. c = CHR ''*'') pattern = pattern"
    by (cases pattern) (auto simp: literal_pattern_def)
  moreover from assms have "pattern \<noteq> [] \<longrightarrow> hd pattern \<noteq> CHR ''*''"
    by (cases pattern) (auto simp: literal_pattern_def)
  ultimately show ?thesis
    using scan_length_literal [OF assms, of False] by (auto simp: scanChunk_def Let_def)
qed

lemma matchChunk_loop_literal:
  "literal_pattern chunk \<Longrightarrow>
   matchChunk_loop failed chunk s =
     (if \<not> failed \<and> prefix chunk s then Matched (drop (length chunk) s) else NoMatch)"
proof (induction chunk arbitrary: failed s)
  case Nil
  show ?case by simp
next
  case (Cons c chunk)
  from Cons.prems have lit: "literal_pattern chunk"
    and c: "c \<noteq> CHR ''*''" "c \<noteq> CHR ''?''" "c \<noteq> CHR ''[''" "c \<noteq> CHR 0x5C"
    by (simp_all add: literal_pattern_def)
  show ?case
  proof (cases s)
    case Nil
    with c show ?thesis by (simp add: Cons.IH [OF lit] Let_def)
  next
    case (Cons d ds)
    with c show ?thesis by (auto simp: Cons.IH [OF lit] Let_def)
  qed
qed

lemma Match_Nil: "Match [] name = Some (name = [])"
  by (subst Match.simps) simp

lemma Match_literal:
  assumes "literal_pattern pattern"
  shows "Match pattern name = Some (pattern = name)"
proof (cases "pattern = []")
  case True
  then show ?thesis by (auto simp: Match_Nil)
next
  case False
  have mc: "matchChunk pattern name =
      (if prefix pattern name then Matched (drop (length pattern) name) else NoMatch)"
    using matchChunk_loop_literal [OF assms, of False name] by (simp add: matchChunk_def)
  show ?thesis
  proof (cases "prefix pattern name")
    case pre: True
    then obtain t where t: "name = pattern @ t" by (auto simp: prefix_def)
    show ?thesis
    proof (cases "t = []")
      case True
      with False t mc pre show ?thesis
        by (subst Match.simps) (simp add: scanChunk_literal [OF assms] Match_Nil)
    next
      case F: False
      with False t mc pre show ?thesis
        by (subst Match.simps) (simp add: scanChunk_literal [OF assms])
    qed
  next
    case npre: False
    then have "pattern \<noteq> name" by auto
    with False mc npre show ?thesis
      by (subst Match.simps) (simp add: scanChunk_literal [OF assms])
  qed
qed

lemma parent_matches_iff:
  "parent_matches pattern dir =
     (\<exists>a \<in> set (parent_dirs dir). Match pattern (Base a) = Some True)"
proof (induction pattern dir rule: parent_matches.induct)
  case (1 pattern dir)
  show ?case
  proof (cases "dir \<noteq> ''.'' \<and> dir \<noteq> ''/''")
    case False
    then show ?thesis
      by (subst parent_matches.simps, subst parent_dirs.simps) auto
  next
    case True
    show ?thesis
    proof (cases "Match pattern (Base dir) = Some True")
      case m: True
      with True show ?thesis
        by (subst parent_matches.simps, subst parent_dirs.simps) auto
    next
      case m: False
      from "1.IH" [OF True m] True m show ?thesis
        by (subst parent_matches.simps, subst parent_dirs.simps) auto
    qed
  qed
qed

lemma TrimSuffix_append: "TrimSuffix (d @ suf) suf = d"
  by (simp add: TrimSuffix_def HasSuffix_def suffix_def)

lemma HasSuffix_append: "HasSuffix (d @ suf) suf"
  by (simp add: HasSuffix_def suffix_def)

text \<open>
  The matcher of package utils has no directory flag: a directory pattern matches the
  directory and every path below it, files included.
\<close>

lemma matchPattern_directory_pattern:
  "matchPattern path (d @ ''/'') = (HasPrefix path (d @ ''/'') \<or> path = d)"
  using TrimSuffix_append [of d "''/''"] HasSuffix_append [of d "''/''"]
  by (simp add: matchPattern_def Let_def)

lemma matchPattern_plain_pattern:
  "\<not> HasSuffix pattern ''/'' \<Longrightarrow> \<not> Contains pattern ''*'' \<Longrightarrow>
   matchPattern path pattern =
     (path = pattern \<or> HasSuffix path (''/'' @ pattern) \<or> Contains path (''/'' @ pattern @ ''/''))"
  by (simp add: matchPattern_def)

text \<open>
  With a directory pattern free of metacharacters, the scanner's matcher accepts a
  directory that is the pattern's directory, lies below it, or has an ancestor whose
  name is the pattern's.
\<close>

lemma Scanner_matchPattern_literal_directory:
  assumes "literal_pattern d"
  shows "Scanner_matchPattern (d @ ''/'') path isDir =
           (isDir \<and> (path = d \<or> HasPrefix path (d @ ''/'')
              \<or> (\<exists>a \<in> set (parent_dirs (Dir path)). Base a = d)))"
proof -
  have m: "\<And>name. (Match d name = Some True) = (d = name)"
    by (simp add: Match_literal [OF assms])
  show ?thesis
    using TrimSuffix_append [of d "''/''"] HasSuffix_append [of d "''/''"]
    by (auto simp: Scanner_matchPattern_def Let_def parent_matches_iff m)
qed

section \<open>Facts about the walk\<close>

declare walk_names.simps(2) [simp del]

lemma walk_names_Cons:
  "walk_names fn path (entry # entries) s =
     (case walk fn (child_path path (node_name entry)) entry s of
        (Continue, s1) \<Rightarrow> walk_names fn path entries s1
      | (SkipDir, s1) \<Rightarrow>
          (if absorbs_skip entry then walk_names fn path entries s1 else (SkipDir, s1))
      | (Abort err, s1) \<Rightarrow> (Abort err, s1))"
  by (cases entry) (simp_all add: walk_names.simps(2) absorbs_skip_def split: prod.splits walk_result.splits)

lemma walk_names_invariant:
  assumes elems: "\<And>entry p s r s'. entry \<in> set entries \<Longrightarrow> I s \<Longrightarrow>
                    walk fn p entry s = (r, s') \<Longrightarrow> I s'"
  shows "I s \<Longrightarrow> walk_names fn path entries s = (r, s') \<Longrightarrow> I s'"
  using elems
proof (induction entries arbitrary: s)
  case Nil
  then show ?case by simp
next
  case (Cons entry entries)
  obtain r1 s1 where c: "walk fn (child_path path (node_name entry)) entry s = (r1, s1)"
    by (cases "walk fn (child_path path (node_name entry)) entry s")
  have i1: "I s1" using Cons.prems(3) [OF _ Cons.prems(1) c] by simp
  have rest: "\<And>s2. I s2 \<Longrightarrow> walk_names fn path entries s2 = (r, s') \<Longrightarrow> I s'"
    using Cons.IH Cons.prems(3) by (meson list.set_intros(2))
  show ?case
  proof (cases r1)
    case Continue
    with c Cons.prems(2) have "walk_names fn path entries s1 = (r, s')"
      by (simp add: walk_names_Cons)
    with rest i1 show ?thesis by blast
  next
    case SkipDir
    show ?thesis
    proof (cases "absorbs_skip entry")
      case True
      with c SkipDir Cons.prems(2) have "walk_names fn path entries s1 = (r, s')"
        by (simp add: walk_names_Cons)
      with rest i1 show ?thesis by blast
    next
      case False
      with c SkipDir Cons.prems(2) have "s' = s1" by (simp add: walk_names_Cons)
      with i1 show ?thesis by simp
    qed
  next
    case (Abort err)
    with c Cons.prems(2) have "s' = s1" by (simp add: walk_names_Cons)
    with i1 show ?thesis by simp
  qed
qed

lemma walk_invariant:
  assumes step: "\<And>p n e s r s'. I s \<Longrightarrow> fn p n e s = (r, s') \<Longrightarrow> I s'"
  shows "I s \<Longrightarrow> walk fn path node s = (r, s') \<Longrightarrow> I s'"
proof (induction node arbitrary: path s r s')
  case (FileNode n sz mt c)
  then show ?case using step by auto
next
  case (DirNode n sz mt entries)
  obtain r1 s1 where c: "fn path (DirNode n sz mt entries) None s = (r1, s1)"
    by (cases "fn path (DirNode n sz mt entries) None s")
  have i1: "I s1" by (rule step [OF DirNode.prems(1) c])
  show ?case
  proof (cases r1)
    case Continue
    with c DirNode.prems(2) have w: "walk_names fn path entries s1 = (r, s')" by simp
    have "\<And>entry p s r s'. entry \<in> set entries \<Longrightarrow> I s \<Longrightarrow>
            walk fn p entry s = (r, s') \<Longrightarrow> I s'"
      by (rule DirNode.IH)
    from walk_names_invariant [of entries I fn, OF this i1 w] show ?thesis .
  next
    case SkipDir
    with c DirNode.prems(2) i1 show ?thesis by simp
  next
    case (Abort err)
    with c DirNode.prems(2) i1 show ?thesis by simp
  qed
next
  case (UnreadableDir n sz mt e)
  then show ?case using step by auto
next
  case (BrokenNode n e)
  then show ?case using step by auto
qed


lemma scan_walkFn_hash:
  "hash_only_nonempty_files st \<Longrightarrow> scan_walkFn sc md5 rootPath p n e st = (r, st') \<Longrightarrow>
   hash_only_nonempty_files st'"
  by (auto simp: scan_walkFn_def hash_only_nonempty_files_def Let_def
           split: option.splits if_splits sum.splits)

text \<open>
  A walk over a tree in which every entry can be accessed, with a walk function that
  passes over the root, prunes the directories and passes over the files that a filter
  matches, and never returns \<open>SkipDir\<close> otherwise, calls the walk function on the reached
  entries in order, up to the first error.
\<close>

lemma run_entries_append:
  "run_entries act (xs @ ys) s =
     (case run_entries act xs s of
        (Continue, s1) \<Rightarrow> run_entries act ys s1
      | (r, s1) \<Rightarrow> (r, s1))"
proof (induction xs arbitrary: s)
  case Nil
  show ?case by simp
next
  case (Cons x xs)
  obtain path node where x: "x = (path, node)" by (cases x)
  obtain r1 s1 where a: "act path node s = (r1, s1)" by (cases "act path node s")
  show ?case using x a Cons.IH [of s1] by (cases r1) simp_all
qed

lemma run_entries_no_skip:
  assumes act: "\<And>path node s. (path, node) \<in> set xs \<Longrightarrow> fst (act path node s) \<noteq> SkipDir"
  shows "fst (run_entries act xs s) \<noteq> SkipDir"
  using act
proof (induction xs arbitrary: s)
  case Nil
  show ?case by simp
next
  case (Cons x xs)
  obtain path node where x: "x = (path, node)" by (cases x)
  obtain r1 s1 where a: "act path node s = (r1, s1)" by (cases "act path node s")
  from Cons.prems [of path node s] x a have "r1 \<noteq> SkipDir" by simp
  moreover have "fst (run_entries act xs s1) \<noteq> SkipDir"
    by (rule Cons.IH) (rule Cons.prems, simp)
  ultimately show ?case using x a by (cases r1) simp_all
qed

lemma reached_not_ignored:
  "(p, n) \<in> set (reached ign path node) \<Longrightarrow> p \<noteq> ''.'' \<and> \<not> ign p (info_IsDir n)"
proof (induction node arbitrary: path)
  case (FileNode name sz mt c)
  then show ?case by (auto split: if_splits)
next
  case (DirNode name sz mt entries)
  then show ?case by (auto split: if_splits)
next
  case (UnreadableDir name sz mt e)
  then show ?case by simp
next
  case (BrokenNode name e)
  then show ?case by simp
qed

lemma walk_names_reached:
  assumes elems: "\<And>entry p s. entry \<in> set entries \<Longrightarrow>
             run_entries act (reached ign p entry) s =
               (settle (fst (walk fn p entry s)), snd (walk fn p entry s))
             \<and> (fst (walk fn p entry s) = SkipDir \<longrightarrow> absorbs_skip entry)"
  shows "walk_names fn path entries s =
           run_entries act
             (concat (map (\<lambda>entry. reached ign (child_path path (node_name entry)) entry) entries)) s"
  using elems
proof (induction entries arbitrary: s)
  case Nil
  show ?case by simp
next
  case (Cons entry entries)
  let ?p = "child_path path (node_name entry)"
  obtain r1 s1 where c: "walk fn ?p entry s = (r1, s1)" by (cases "walk fn ?p entry s")
  have e: "run_entries act (reached ign ?p entry) s = (settle r1, s1)"
    and sk: "r1 = SkipDir \<longrightarrow> absorbs_skip entry"
    using Cons.prems [of entry ?p s] c by simp_all
  have rest: "\<And>s2. walk_names fn path entries s2 =
      run_entries act
        (concat (map (\<lambda>entry. reached ign (child_path path (node_name entry)) entry) entries)) s2"
    by (rule Cons.IH) (rule Cons.prems, simp)
  show ?case using c e sk rest
    by (cases r1) (simp_all add: walk_names_Cons run_entries_append settle_def)
qed

lemma walk_reached:
  assumes root: "\<And>node s. fn ''.'' node None s = (Continue, s)"
      and pruned: "\<And>path node s. path \<noteq> ''.'' \<Longrightarrow> ign path (info_IsDir node) \<Longrightarrow>
             fn path node None s = (if info_IsDir node then SkipDir else Continue, s)"
      and handled: "\<And>path node s. path \<noteq> ''.'' \<Longrightarrow> \<not> ign path (info_IsDir node) \<Longrightarrow>
             fst (fn path node None s) \<noteq> SkipDir"
  shows "accessible node \<Longrightarrow>
         run_entries (\<lambda>p n. fn p n None) (reached ign path node) s =
           (settle (fst (walk fn path node s)), snd (walk fn path node s))
         \<and> (fst (walk fn path node s) = SkipDir \<longrightarrow> absorbs_skip node)"
proof (induction node arbitrary: path s)
  case (FileNode n sz mt c)
  let ?f = "FileNode n sz mt c"
  show ?case
  proof (cases "path = ''.''")
    case True
    then show ?thesis by (simp add: root settle_def)
  next
    case False
    show ?thesis
    proof (cases "ign path False")
      case True
      with False pruned [of path ?f s] show ?thesis by (simp add: settle_def)
    next
      case ni: False
      obtain r1 s1 where a: "fn path ?f None s = (r1, s1)" by (cases "fn path ?f None s")
      from handled [of path ?f s] False ni a have "r1 \<noteq> SkipDir" by simp
      with False ni a show ?thesis by (cases r1) (simp_all add: settle_def)
    qed
  qed
next
  case (DirNode n sz mt entries)
  let ?d = "DirNode n sz mt entries"
  let ?act = "\<lambda>p n. fn p n None"
  have ih: "\<And>entry p s. entry \<in> set entries \<Longrightarrow>
             run_entries ?act (reached ign p entry) s =
               (settle (fst (walk fn p entry s)), snd (walk fn p entry s))
             \<and> (fst (walk fn p entry s) = SkipDir \<longrightarrow> absorbs_skip entry)"
    using DirNode.IH DirNode.prems by (simp add: list_all_iff)
  note wn = walk_names_reached [where fn = fn and act = ?act and ign = ign and entries = entries,
      OF ih]
  let ?xs = "concat (map (\<lambda>entry. reached ign (child_path path (node_name entry)) entry) entries)"
  have ns: "\<And>s. fst (run_entries ?act ?xs s) \<noteq> SkipDir"
  proof (rule run_entries_no_skip)
    fix p nd s
    assume "(p, nd) \<in> set ?xs"
    then obtain entry where "(p, nd) \<in> set (reached ign (child_path path (node_name entry)) entry)"
      by auto
    from reached_not_ignored [OF this] show "fst (fn p nd None s) \<noteq> SkipDir"
      by (simp add: handled)
  qed
  have ab: "absorbs_skip ?d" by (simp add: absorbs_skip_def)
  show ?case
  proof (cases "path = ''.''")
    case True
    obtain r2 s2 where w: "walk_names fn path entries s = (r2, s2)"
      by (cases "walk_names fn path entries s")
    from w wn [of path s] have re: "run_entries ?act ?xs s = (r2, s2)" by simp
    from re ns [of s] have "r2 \<noteq> SkipDir" by simp
    with True w re ab show ?thesis
      by (cases r2) (simp_all add: root settle_def)
  next
    case False
    show ?thesis
    proof (cases "ign path True")
      case True
      with False ab pruned [of path ?d s] show ?thesis by (simp add: settle_def)
    next
      case ni: False
      obtain r1 s1 where a: "fn path ?d None s = (r1, s1)" by (cases "fn path ?d None s")
      from handled [of path ?d s] False ni a have r1: "r1 \<noteq> SkipDir" by simp
      show ?thesis
      proof (cases r1)
        case Continue
        obtain r2 s2 where w: "walk_names fn path entries s1 = (r2, s2)"
          by (cases "walk_names fn path entries s1")
        from w wn [of path s1] have re: "run_entries ?act ?xs s1 = (r2, s2)" by simp
        from re ns [of s1] have "r2 \<noteq> SkipDir" by simp
        with False ni a Continue w re ab show ?thesis
          by (cases r2) (simp_all add: settle_def)
      next
        case SkipDir
        with r1 show ?thesis by simp
      next
        case (Abort err)
        with False ni a ab show ?thesis by (simp add: settle_def)
      qed
    qed
  qed
next
  case (UnreadableDir n sz mt e)
  then show ?case by simp
next
  case (BrokenNode n e)
  then show ?case by simp
qed

lemma Walk_reached:
  assumes root: "\<And>node s. fn ''.'' node None s = (Continue, s)"
      and pruned: "\<And>path node s. path \<noteq> ''.'' \<Longrightarrow> ign path (info_IsDir node) \<Longrightarrow>
             fn path node None s = (if info_IsDir node then SkipDir else Continue, s)"
      and handled: "\<And>path node s. path \<noteq> ''.'' \<Longrightarrow> \<not> ign path (info_IsDir node) \<Longrightarrow>
             fst (fn path node None s) \<noteq> SkipDir"
      and acc: "accessible root"
  shows "Walk fn root s =
           (case run_entries (\<lambda>p n. fn p n None) (reached ign ''.'' root) s of
              (Abort err, s1) \<Rightarrow> (Some err, s1)
            | (_, s1) \<Rightarrow> (None, s1))"
proof -
  obtain r s' where w: "walk fn ''.'' root s = (r, s')" by (cases "walk fn ''.'' root s")
  from walk_reached [where fn = fn and ign = ign, OF root pruned handled acc, of "''.''" s] w
  have "run_entries (\<lambda>p n. fn p n None) (reached ign ''.'' root) s = (settle r, s')" by simp
  with w show ?thesis by (cases r) (simp_all add: Walk_def settle_def)
qed

section \<open>Facts about the clients\<close>

lemma calls_log_Printf [simp]: "calls (log_Printf f args w) = calls w"
  by (simp add: log_Printf_def)

lemma calls_LogInfo [simp]: "calls (LogInfo f args w) = calls w"
  by (simp add: LogInfo_def)

lemma calls_LogVerbose [simp]: "calls (LogVerbose f args w) = calls w"
  by (simp add: LogVerbose_def)

lemma gd_dryrun_walkFn_calls:
  "calls w = cs \<Longrightarrow> gd_dryrun_walkFn c src p n e w = (r, w') \<Longrightarrow> calls w' = cs"
  by (auto simp: gd_dryrun_walkFn_def split: option.splits if_splits)

lemma pc_dryrun_walkFn_calls:
  "calls w = cs \<Longrightarrow> pc_dryrun_walkFn c src p n e w = (r, w') \<Longrightarrow> calls w' = cs"
  by (auto simp: pc_dryrun_walkFn_def split: option.splits if_splits)

lemma Walk_invariant:
  assumes step: "\<And>p n e s r s'. I s \<Longrightarrow> fn p n e s = (r, s') \<Longrightarrow> I s'"
      and "I s"
  shows "I (snd (Walk fn root s))"
proof -
  obtain r s' where w: "walk fn ''.'' root s = (r, s')" by (cases "walk fn ''.'' root s")
  from walk_invariant [of I fn, OF step assms(2) w] have "I s'" .
  with w show ?thesis by (cases r) (simp_all add: Walk_def)
qed

lemma gd_DryRun_calls: "calls (snd (gd_DryRun c src root w)) = calls w"
  unfolding gd_DryRun_def
  by (rule Walk_invariant [where I = "\<lambda>s. calls s = calls w"])
     (auto dest: gd_dryrun_walkFn_calls)

lemma pc_DryRun_calls: "calls (snd (pc_DryRun c src root w)) = calls w"
  unfolding pc_DryRun_def
  by (rule Walk_invariant [where I = "\<lambda>s. calls s = calls w"])
     (auto dest: pc_dryrun_walkFn_calls)




















































text \<open>What a scan returns\<close>

lemma scan_walkFn_run:
  assumes guard: "\<And>p n. (p, n) \<in> set xs \<Longrightarrow> p \<noteq> ''.'' \<and> \<not> shouldIgnore sc p (info_IsDir n)"
  shows "run_entries (\<lambda>p n. scan_walkFn sc md5 rootPath p n None) xs st =
           (Continue,
            st\<lparr>files := files st @
                   map (inventory_entry md5 rootPath)
                     (filter (\<lambda>(relPath, info). shouldInclude sc relPath (info_IsDir info)) xs),
               printed := printed st @
                   concat (map (hash_warnings md5 rootPath)
                     (filter (\<lambda>(relPath, info). shouldInclude sc relPath (info_IsDir info)) xs))\<rparr>)"
  using guard
proof (induction xs arbitrary: st)
  case Nil
  show ?case by simp
next
  case (Cons x xs)
  obtain p n where x: "x = (p, n)" by (cases x)
  have g: "p \<noteq> ''.'' \<and> \<not> shouldIgnore sc p (info_IsDir n)"
    by (rule Cons.prems) (simp add: x)
  have rest: "\<And>st. run_entries (\<lambda>p n. scan_walkFn sc md5 rootPath p n None) xs st =
           (Continue,
            st\<lparr>files := files st @
                   map (inventory_entry md5 rootPath)
                     (filter (\<lambda>(relPath, info). shouldInclude sc relPath (info_IsDir info)) xs),
               printed := printed st @
                   concat (map (hash_warnings md5 rootPath)
                     (filter (\<lambda>(relPath, info). shouldInclude sc relPath (info_IsDir info)) xs))\<rparr>)"
    by (rule Cons.IH) (rule Cons.prems, simp)
  have step: "scan_walkFn sc md5 rootPath p n None st =
      (Continue,
       st\<lparr>files := files st @
              map (inventory_entry md5 rootPath)
                (filter (\<lambda>(relPath, info). shouldInclude sc relPath (info_IsDir info)) [(p, n)]),
          printed := printed st @
              concat (map (hash_warnings md5 rootPath)
                (filter (\<lambda>(relPath, info). shouldInclude sc relPath (info_IsDir info)) [(p, n)]))\<rparr>)"
    using g
    by (simp add: scan_walkFn_def Let_def inventory_entry_def hash_warnings_def hashed_def
             split: sum.splits)
  show ?case
    unfolding x run_entries.simps step by (simp add: rest)
qed

lemma Scan_accessible:
  assumes "accessible root"
  shows "Scan sc md5 rootPath root =
           (Inr (map (inventory_entry md5 rootPath) (scanned sc root)),
            concat (map (hash_warnings md5 rootPath) (scanned sc root)))"
proof -
  let ?fn = "scan_walkFn sc md5 rootPath"
  have w: "Walk ?fn root \<lparr>files = [], printed = []\<rparr> =
           (case run_entries (\<lambda>p n. ?fn p n None) (reached (shouldIgnore sc) ''.'' root)
                   \<lparr>files = [], printed = []\<rparr> of
              (Abort err, s1) \<Rightarrow> (Some err, s1)
            | (_, s1) \<Rightarrow> (None, s1))"
  proof (rule Walk_reached [where ign = "shouldIgnore sc"])
    show "\<And>node s. ?fn ''.'' node None s = (Continue, s)" by (simp add: scan_walkFn_def)
    show "\<And>path node s. path \<noteq> ''.'' \<Longrightarrow> shouldIgnore sc path (info_IsDir node) \<Longrightarrow>
            ?fn path node None s = (if info_IsDir node then SkipDir else Continue, s)"
      by (simp add: scan_walkFn_def)
    show "\<And>path node s. path \<noteq> ''.'' \<Longrightarrow> \<not> shouldIgnore sc path (info_IsDir node) \<Longrightarrow>
            fst (?fn path node None s) \<noteq> SkipDir"
      by (simp add: scan_walkFn_def Let_def split: sum.splits)
    show "accessible root" by (rule assms)
  qed
  have r: "run_entries (\<lambda>p n. ?fn p n None) (reached (shouldIgnore sc) ''.'' root)
             \<lparr>files = [], printed = []\<rparr> =
           (Continue,
            \<lparr>files = map (inventory_entry md5 rootPath) (scanned sc root),
             printed = concat (map (hash_warnings md5 rootPath) (scanned sc root))\<rparr>)"
  proof -
    have "run_entries (\<lambda>p n. ?fn p n None) (reached (shouldIgnore sc) ''.'' root)
             \<lparr>files = [], printed = []\<rparr> =
           (Continue,
            \<lparr>files = [], printed = []\<rparr>
              \<lparr>files := files \<lparr>files = [], printed = []\<rparr> @
                   map (inventory_entry md5 rootPath)
                     (filter (\<lambda>(relPath, info). shouldInclude sc relPath (info_IsDir info))
                        (reached (shouldIgnore sc) ''.'' root)),
               printed := printed \<lparr>files = [], printed = []\<rparr> @
                   concat (map (hash_warnings md5 rootPath)
                     (filter (\<lambda>(relPath, info). shouldInclude sc relPath (info_IsDir info))
                        (reached (shouldIgnore sc) ''.'' root)))\<rparr>)"
      by (rule scan_walkFn_run) (rule reached_not_ignored)
    then show ?thesis by (simp add: scanned_def)
  qed
  show ?thesis unfolding Scan_def w r by simp
qed









section \<open>Facts about the daemon\<close>

lemma daemon_step_watcher:
  "daemon_step a s = Some s' \<Longrightarrow> watcher_at s = NoWatcher \<Longrightarrow> watcher_at s' = NoWatcher"
  by (cases a) (auto split: if_splits)

lemma daemon_step_events:
  "daemon_step a s = Some s' \<Longrightarrow> events_pending s \<le> events_capacity \<Longrightarrow>
   events_pending s' \<le> events_capacity"
  by (cases a) (auto split: if_splits)

lemma daemon_run_watcher:
  "daemon_run as s = Some s' \<Longrightarrow> watcher_at s = NoWatcher \<Longrightarrow> watcher_at s' = NoWatcher"
proof (induction as arbitrary: s)
  case Nil
  then show ?case by simp
next
  case (Cons a as)
  then show ?case by (auto split: option.splits dest: daemon_step_watcher)
qed

lemma daemon_run_events:
  "daemon_run as s = Some s' \<Longrightarrow> events_pending s \<le> events_capacity \<Longrightarrow>
   events_pending s' \<le> events_capacity"
proof (induction as arbitrary: s)
  case Nil
  then show ?case by simp
next
  case (Cons a as)
  then show ?case by (auto split: option.splits dest: daemon_step_events)
qed

section \<open>Files that exist on the remote store\<close>

text \<open>
  C1. A file whose remote copy has the same content hash is to be skipped. Neither client
  compares hashes: \<open>uploadFile\<close> sends the content whenever it is called. Here the
  remote \<open>a.txt\<close> has the checksum of the local content and only the modification
  time of the local file has changed: a pass of either Drive client has sent the file,
  as an update of the remote file (which the example service accepts); and two passes of
  the pCloud client, over the file and over the touched file, have sent it twice.
\<close>

theorem unchanged_file_is_uploaded:
  "calculateMD5 example_digest (FileNode ''a.txt'' 2 99 (Content ''hi''))
     = Inr (df_Md5Checksum remote_a_txt)
   \<and> fst (gd_Sync drive_with_a_txt ''/src'' one_file_touched empty_world) = None
   \<and> gd_uploads (calls (snd (gd_Sync drive_with_a_txt ''/src'' one_file_touched empty_world)))
       = [(''a.txt'', ''hi'')]
   \<and> last (calls (snd (gd_Sync drive_with_a_txt ''/src'' one_file_touched empty_world)))
       = FilesUpdate ''id1'' (new_drive_File\<lparr>df_Name := ''a.txt'', df_Parents := [''root'']\<rparr>)
           (Inr ''hi'')
   \<and> fst (gd2_Sync drive_with_a_txt ''/src'' one_file_touched empty_world) = None
   \<and> gd_uploads (calls (snd (gd2_Sync drive_with_a_txt ''/src'' one_file_touched empty_world)))
       = [(''a.txt'', ''hi'')]
   \<and> last (calls (snd (gd2_Sync drive_with_a_txt ''/src'' one_file_touched empty_world)))
       = FilesUpdate ''id1'' (new_drive_File\<lparr>df_Name := ''a.txt''\<rparr>) (Inr ''hi'')
   \<and> fst (pc_Sync example_pcloud_client ''/src'' one_file_touched
            (snd (pc_Sync example_pcloud_client ''/src'' one_file empty_world))) = None
   \<and> pc_uploads (calls (snd (pc_Sync example_pcloud_client ''/src'' one_file_touched
            (snd (pc_Sync example_pcloud_client ''/src'' one_file empty_world)))))
       = [(''a.txt'', ''hi''), (''a.txt'', ''hi'')]"
  by code_simp

section \<open>Failure of an entry\<close>

text \<open>
  C2. A pass is to go on after an entry fails. \<open>Sync\<close> of either client returns the
  error of the first entry that fails as the error of the pass. Here the remote store
  refuses the second of three files: the pass returns that error, the first file and
  the refused one have been sent and the third file has not.
\<close>

theorem failing_entry_ends_pass:
  "fst (gd_Sync drive_refusing_b_txt ''/src'' three_files empty_world)
     = Some (Wrap ''failed to upload file'' (Err ''storageQuotaExceeded''))
   \<and> gd_uploads (calls (snd (gd_Sync drive_refusing_b_txt ''/src'' three_files empty_world)))
     = [(''a.txt'', ''hi''), (''b.txt'', ''yo'')]
   \<and> fst (gd2_Sync drive_refusing_b_txt ''/src'' three_files empty_world)
     = Some (Wrap ''failed to upload file'' (Err ''storageQuotaExceeded''))
   \<and> gd_uploads (calls (snd (gd2_Sync drive_refusing_b_txt ''/src'' three_files empty_world)))
     = [(''a.txt'', ''hi''), (''b.txt'', ''yo'')]
   \<and> fst (pc_Sync pcloud_refusing_b_txt ''/src'' three_files empty_world)
     = Some (Err ''upload failed: User is over quota.'')
   \<and> pc_uploads (calls (snd (pc_Sync pcloud_refusing_b_txt ''/src'' three_files empty_world)))
     = [(''a.txt'', ''hi''), (''b.txt'', ''yo'')]
   \<and> pass_files three_files = [(''a.txt'', ''hi''), (''b.txt'', ''yo''), (''c.txt'', ''ok'')]"
  by code_simp

section \<open>Retries\<close>

text \<open>
  C3. A transfer that fails with a transient error is to be tried again, up to the
  configured number of attempts. Neither client tries again. Here three attempts are
  configured, the remote store fails the first upload of the file with a transient error
  and would accept a second one: \<open>uploadFile\<close> of either client returns the error after
  one upload call, and so does the pass; called once more, it succeeds.
\<close>

theorem transient_failure_not_retried:
  "RetryAttempts (General DefaultConfig) = 3
   \<and> gd_Sync flaky_drive ''/src'' one_file empty_world
     = (Some (Wrap ''failed to upload file'' (Err ''503 Service Unavailable'')),
        snd (gd_uploadFile flaky_drive (FileNode ''a.txt'' 2 11 (Content ''hi'')) ''a.txt''
               (log_Printf ''Starting Google Drive sync from: %s'' [S ''/src''] empty_world)))
   \<and> filter gd_is_upload (calls (snd (gd_uploadFile flaky_drive
         (FileNode ''a.txt'' 2 11 (Content ''hi'')) ''a.txt'' empty_world)))
     = [FilesCreate (new_drive_File\<lparr>df_Name := ''a.txt'', df_Parents := [''root'']\<rparr>)
          (Some (Inr ''hi''))]
   \<and> fst (gd_uploadFile flaky_drive (FileNode ''a.txt'' 2 11 (Content ''hi'')) ''a.txt''
          (snd (gd_uploadFile flaky_drive (FileNode ''a.txt'' 2 11 (Content ''hi'')) ''a.txt''
             empty_world))) = None
   \<and> fst (gd2_uploadFile flaky_drive (FileNode ''a.txt'' 2 11 (Content ''hi'')) ''a.txt''
          empty_world)
     = Some (Wrap ''failed to upload file'' (Err ''503 Service Unavailable''))
   \<and> filter gd_is_upload (calls (snd (gd2_uploadFile flaky_drive
         (FileNode ''a.txt'' 2 11 (Content ''hi'')) ''a.txt'' empty_world)))
     = [FilesCreate (new_drive_File\<lparr>df_Name := ''a.txt'', df_Parents := [''root'']\<rparr>)
          (Some (Inr ''hi''))]
   \<and> fst (gd2_uploadFile flaky_drive (FileNode ''a.txt'' 2 11 (Content ''hi'')) ''a.txt''
          (snd (gd2_uploadFile flaky_drive (FileNode ''a.txt'' 2 11 (Content ''hi'')) ''a.txt''
             empty_world))) = None
   \<and> fst (pc_Sync flaky_pcloud ''/src'' one_file empty_world)
     = Some (Wrap ''upload request failed'' (Err ''connection reset by peer''))
   \<and> filter pc_is_upload (calls (snd (pc_uploadFile flaky_pcloud
         (FileNode ''a.txt'' 2 11 (Content ''hi'')) ''a.txt'' empty_world)))
     = [UploadFileReq ''7'' ''a.txt'' ''hi'']
   \<and> fst (pc_uploadFile flaky_pcloud (FileNode ''a.txt'' 2 11 (Content ''hi'')) ''a.txt''
          (snd (pc_uploadFile flaky_pcloud (FileNode ''a.txt'' 2 11 (Content ''hi'')) ''a.txt''
             empty_world))) = None"
  by code_simp

section \<open>Dry run\<close>

text \<open>
  C4. A dry run of either client, called directly or through the sync manager, issues
  no call to the remote store on any source tree: the calls issued are the same after it
  as before. It only logs the entries it would transfer.
\<close>

theorem dry_run_makes_no_remote_calls:
  "calls (snd (gd_DryRun gc sourcePath root gw)) = calls gw
   \<and> calls (snd (pc_DryRun pc sourcePath root pw)) = calls pw
   \<and> calls (snd (snd (SyncToGoogleDrive newGd m sourcePath root True gw))) = calls gw
   \<and> calls (snd (snd (SyncToPCloud newPc m sourcePath root True pw))) = calls pw"
proof (intro conjI)
  show "calls (snd (gd_DryRun gc sourcePath root gw)) = calls gw" by (rule gd_DryRun_calls)
  show "calls (snd (pc_DryRun pc sourcePath root pw)) = calls pw" by (rule pc_DryRun_calls)
  show "calls (snd (snd (SyncToGoogleDrive newGd m sourcePath root True gw))) = calls gw"
    using gd_DryRun_calls
    by (auto simp: SyncToGoogleDrive_def Let_def split: option.splits sum.splits prod.splits)
       (metis snd_conv)+
  show "calls (snd (snd (SyncToPCloud newPc m sourcePath root True pw))) = calls pw"
    using pc_DryRun_calls
    by (auto simp: SyncToPCloud_def Let_def split: option.splits sum.splits prod.splits)
       (metis snd_conv)+
qed

section \<open>Directory-scoped patterns\<close>

text \<open>
  C5. For a pattern that ends in the separator, the scanner's matcher returns false on
  every path that is not a directory. On a directory it returns true exactly when the
  path equals the pattern without its separator, or starts with the pattern, or the
  stripped pattern shell-matches the path, or it shell-matches the last element of one of
  the path's ancestor directories.
\<close>

theorem directory_pattern_matches:
  assumes "HasSuffix pattern ''/''"
  shows "Scanner_matchPattern pattern path isDir =
           (isDir \<and>
             (path = TrimSuffix pattern ''/''
              \<or> HasPrefix path (TrimSuffix pattern ''/'' @ ''/'')
              \<or> Match (TrimSuffix pattern ''/'') path = Some True
              \<or> (\<exists>a \<in> set (parent_dirs (Dir path)).
                     Match (TrimSuffix pattern ''/'') (Base a) = Some True)))"
  using assms by (auto simp: Scanner_matchPattern_def Let_def parent_matches_iff)

theorem directory_pattern_matches_witness:
  "Scanner_matchPattern ''logs/'' ''logs/archive'' True =
     (True \<and>
       (''logs/archive'' = TrimSuffix ''logs/'' ''/''
        \<or> HasPrefix ''logs/archive'' (TrimSuffix ''logs/'' ''/'' @ ''/'')
        \<or> Match (TrimSuffix ''logs/'' ''/'') ''logs/archive'' = Some True
        \<or> (\<exists>a \<in> set (parent_dirs (Dir ''logs/archive'')).
               Match (TrimSuffix ''logs/'' ''/'') (Base a) = Some True)))"
proof -
  have h: "HasSuffix ''logs/'' ''/''" by code_simp
  show ?thesis by (rule directory_pattern_matches [OF h])
qed

text \<open>
  The directory \<open>a/dir/b\<close> neither equals \<open>dir\<close> nor starts with \<open>dir/\<close>, and the
  pattern \<open>dir/\<close> matches it, through its ancestor \<open>a/dir\<close>.
\<close>

theorem directory_pattern_ancestor_counterexample:
  "Scanner_matchPattern ''dir/'' ''a/dir/b'' True
   \<and> ''a/dir/b'' \<noteq> ''dir'' \<and> \<not> HasPrefix ''a/dir/b'' ''dir/''"
  by code_simp

section \<open>Plain patterns\<close>

text \<open>
  C6. A plain pattern is to match a path that equals it, ends with the separator and
  the pattern, or has an ancestor element equal to it, the top-level element included.
  The matcher of package utils looks for the pattern between two separators, so it
  misses an ancestor that is the first element of the path while it finds the same
  ancestor one level down; the scanner's matcher finds the top-level ancestor and
  misses the path that ends with the separator and the pattern.
\<close>

theorem plain_pattern_top_level_ancestor_missed:
  "matchPattern ''node_modules/pkg/index.js'' ''node_modules'' = False
   \<and> matchPattern ''lib/node_modules/pkg/index.js'' ''node_modules'' = True
   \<and> Scanner_matchPattern ''node_modules'' ''node_modules/pkg/index.js'' False = True
   \<and> matchPattern ''photos/Thumbs.db'' ''Thumbs.db'' = True
   \<and> Scanner_matchPattern ''Thumbs.db'' ''photos/Thumbs.db'' False = False
   \<and> FilterPaths [''node_modules/pkg/index.js'', ''lib/node_modules/pkg/index.js'', ''main.go'']
         [''node_modules''] []
       = [''node_modules/pkg/index.js'', ''main.go'']"
  by code_simp

section \<open>Content hashes of a scan\<close>

text \<open>
  C7. In the inventory that a scan returns, only entries that are not directories and
  have a size above zero carry a content hash. A scan of a tree without access errors
  returns the inventory whatever the hashing does: it holds one record for each entry
  that the ignore patterns leave and the include patterns admit, in the order of the
  walk, with the hash where one is due and can be computed and the empty hash otherwise,
  and the output holds one warning for each entry whose hash cannot be computed. So a
  file of the tree that is recorded, is not empty, and cannot be opened or read is in
  the inventory with the empty hash, and its warning is in the output.
\<close>

theorem scan_content_hash:
  "(Scan sc md5 rootPath root = (Inr fs, out) \<longrightarrow>
      (\<forall>f \<in> set fs. MD5Hash f \<noteq> [] \<longrightarrow> \<not> IsDir f \<and> 0 < Size f))
   \<and> (accessible root \<longrightarrow>
        Scan sc md5 rootPath root =
          (Inr (map (inventory_entry md5 rootPath) (scanned sc root)),
           concat (map (hash_warnings md5 rootPath) (scanned sc root))))
   \<and> (accessible root \<and> (relPath, info) \<in> set (scanned sc root)
        \<and> \<not> info_IsDir info \<and> 0 < info_Size info \<and> calculateMD5 md5 info = Inl e \<longrightarrow>
        (\<exists>fs out. Scan sc md5 rootPath root = (Inr fs, out)
           \<and> \<lparr>Path = relPath, AbsolutePath = abs_path rootPath relPath,
               Size = info_Size info, ModTime = info_ModTime info, IsDir = False,
               MD5Hash = []\<rparr> \<in> set fs
           \<and> ''Warning: Failed to calculate MD5 for '' @ abs_path rootPath relPath @ '': '' @
               error_message e @ [CHR 0x0A] \<in> set out))"
proof (intro conjI impI)
  assume scan: "Scan sc md5 rootPath root = (Inr fs, out)"
  obtain r st where w: "walk (scan_walkFn sc md5 rootPath) ''.'' root \<lparr>files = [], printed = []\<rparr> = (r, st)"
    by (cases "walk (scan_walkFn sc md5 rootPath) ''.'' root \<lparr>files = [], printed = []\<rparr>")
  have "hash_only_nonempty_files \<lparr>files = [], printed = []\<rparr>"
    by (simp add: hash_only_nonempty_files_def)
  from walk_invariant [of hash_only_nonempty_files "scan_walkFn sc md5 rootPath", OF scan_walkFn_hash this w]
  have inv: "hash_only_nonempty_files st" .
  from scan w have "fs = files st"
    by (cases r) (simp_all add: Scan_def Walk_def)
  with inv show "\<forall>f \<in> set fs. MD5Hash f \<noteq> [] \<longrightarrow> \<not> IsDir f \<and> 0 < Size f"
    by (simp add: hash_only_nonempty_files_def)
next
  assume "accessible root"
  then show "Scan sc md5 rootPath root =
          (Inr (map (inventory_entry md5 rootPath) (scanned sc root)),
           concat (map (hash_warnings md5 rootPath) (scanned sc root)))"
    by (rule Scan_accessible)
next
  assume a: "accessible root \<and> (relPath, info) \<in> set (scanned sc root)
        \<and> \<not> info_IsDir info \<and> 0 < info_Size info \<and> calculateMD5 md5 info = Inl e"
  then have m: "(relPath, info) \<in> set (scanned sc root)"
    and h: "hashed info" and nd: "\<not> info_IsDir info" and f: "calculateMD5 md5 info = Inl e"
    by (simp_all add: hashed_def)
  from a have s: "Scan sc md5 rootPath root =
          (Inr (map (inventory_entry md5 rootPath) (scanned sc root)),
           concat (map (hash_warnings md5 rootPath) (scanned sc root)))"
    by (intro Scan_accessible) simp
  have e: "inventory_entry md5 rootPath (relPath, info) =
      \<lparr>Path = relPath, AbsolutePath = abs_path rootPath relPath,
        Size = info_Size info, ModTime = info_ModTime info, IsDir = False, MD5Hash = []\<rparr>"
    using h nd f by (simp add: inventory_entry_def)
  have "inventory_entry md5 rootPath (relPath, info)
          \<in> set (map (inventory_entry md5 rootPath) (scanned sc root))"
    using m by simp
  with e have i: "\<lparr>Path = relPath, AbsolutePath = abs_path rootPath relPath,
        Size = info_Size info, ModTime = info_ModTime info, IsDir = False, MD5Hash = []\<rparr>
      \<in> set (map (inventory_entry md5 rootPath) (scanned sc root))" by simp
  have "hash_warnings md5 rootPath (relPath, info) =
      [''Warning: Failed to calculate MD5 for '' @ abs_path rootPath relPath @ '': '' @
       error_message e @ [CHR 0x0A]]"
    using h f by (simp add: hash_warnings_def)
  with m have o: "''Warning: Failed to calculate MD5 for '' @ abs_path rootPath relPath @ '': '' @
       error_message e @ [CHR 0x0A]
      \<in> set (concat (map (hash_warnings md5 rootPath) (scanned sc root)))"
    by force
  from s i o show "\<exists>fs out. Scan sc md5 rootPath root = (Inr fs, out)
           \<and> \<lparr>Path = relPath, AbsolutePath = abs_path rootPath relPath,
               Size = info_Size info, ModTime = info_ModTime info, IsDir = False,
               MD5Hash = []\<rparr> \<in> set fs
           \<and> ''Warning: Failed to calculate MD5 for '' @ abs_path rootPath relPath @ '': '' @
               error_message e @ [CHR 0x0A] \<in> set out"
    by blast
qed

text \<open>
  The scan of the example tree with the ignore pattern \<open>*.tmp\<close>: the file that cannot
  be opened and the file on which reading fails are in the inventory with the empty
  hash, each with its warning.
\<close>

theorem scan_content_hash_witness:
  "Scan (NewScanner [''*.tmp''] []) example_digest ''/src'' example_tree =
     (Inr [\<lparr>Path = ''a.txt'', AbsolutePath = ''/src/a.txt'', Size = 2,
             ModTime = 11, IsDir = False, MD5Hash = ''md5:hi''\<rparr>,
           \<lparr>Path = ''b'', AbsolutePath = ''/src/b'', Size = 4096, ModTime = 12,
             IsDir = True, MD5Hash = []\<rparr>,
           \<lparr>Path = ''b/c.txt'', AbsolutePath = ''/src/b/c.txt'', Size = 2,
             ModTime = 13, IsDir = False, MD5Hash = []\<rparr>,
           \<lparr>Path = ''b/d.bin'', AbsolutePath = ''/src/b/d.bin'', Size = 5,
             ModTime = 16, IsDir = False, MD5Hash = []\<rparr>,
           \<lparr>Path = ''empty'', AbsolutePath = ''/src/empty'', Size = 0,
             ModTime = 14, IsDir = False, MD5Hash = []\<rparr>],
      [''Warning: Failed to calculate MD5 for /src/b/c.txt: failed to open file: permission denied'' @
         [CHR 0x0A],
       ''Warning: Failed to calculate MD5 for /src/b/d.bin: failed to read file for hashing: input/output error'' @
         [CHR 0x0A]])
   \<and> list_all (\<lambda>f. MD5Hash f \<noteq> [] \<longrightarrow> \<not> IsDir f \<and> 0 < Size f)
       [\<lparr>Path = ''a.txt'', AbsolutePath = ''/src/a.txt'', Size = 2,
          ModTime = 11, IsDir = False, MD5Hash = ''md5:hi''\<rparr>,
        \<lparr>Path = ''b'', AbsolutePath = ''/src/b'', Size = 4096, ModTime = 12,
          IsDir = True, MD5Hash = []\<rparr>,
        \<lparr>Path = ''b/c.txt'', AbsolutePath = ''/src/b/c.txt'', Size = 2,
          ModTime = 13, IsDir = False, MD5Hash = []\<rparr>,
        \<lparr>Path = ''b/d.bin'', AbsolutePath = ''/src/b/d.bin'', Size = 5,
          ModTime = 16, IsDir = False, MD5Hash = []\<rparr>,
        \<lparr>Path = ''empty'', AbsolutePath = ''/src/empty'', Size = 0,
          ModTime = 14, IsDir = False, MD5Hash = []\<rparr>]
   \<and> Scan (NewScanner [''*.tmp''] []) example_digest ''/src'' example_tree =
       (Inr (map (inventory_entry example_digest ''/src'')
               (scanned (NewScanner [''*.tmp''] []) example_tree)),
        concat (map (hash_warnings example_digest ''/src'')
               (scanned (NewScanner [''*.tmp''] []) example_tree)))
   \<and> (\<exists>fs out. Scan (NewScanner [''*.tmp''] []) example_digest ''/src'' example_tree = (Inr fs, out)
         \<and> \<lparr>Path = ''b/d.bin'', AbsolutePath = abs_path ''/src'' ''b/d.bin'',
             Size = info_Size (FileNode ''d.bin'' 5 16 (ReadFails (Err ''input/output error''))),
             ModTime = info_ModTime (FileNode ''d.bin'' 5 16 (ReadFails (Err ''input/output error''))),
             IsDir = False, MD5Hash = []\<rparr> \<in> set fs
         \<and> ''Warning: Failed to calculate MD5 for '' @ abs_path ''/src'' ''b/d.bin'' @ '': '' @
             error_message (Wrap ''failed to read file for hashing'' (Err ''input/output error'')) @
             [CHR 0x0A] \<in> set out)"
proof -
  let ?sc = "NewScanner [''*.tmp''] []"
  let ?d = "FileNode ''d.bin'' 5 16 (ReadFails (Err ''input/output error''))"
  let ?fs = "[\<lparr>Path = ''a.txt'', AbsolutePath = ''/src/a.txt'', Size = 2,
                ModTime = 11, IsDir = False, MD5Hash = ''md5:hi''\<rparr>,
              \<lparr>Path = ''b'', AbsolutePath = ''/src/b'', Size = 4096, ModTime = 12,
                IsDir = True, MD5Hash = []\<rparr>,
              \<lparr>Path = ''b/c.txt'', AbsolutePath = ''/src/b/c.txt'', Size = 2,
                ModTime = 13, IsDir = False, MD5Hash = []\<rparr>,
              \<lparr>Path = ''b/d.bin'', AbsolutePath = ''/src/b/d.bin'', Size = 5,
                ModTime = 16, IsDir = False, MD5Hash = []\<rparr>,
              \<lparr>Path = ''empty'', AbsolutePath = ''/src/empty'', Size = 0,
                ModTime = 14, IsDir = False, MD5Hash = []\<rparr>]"
  let ?out = "[''Warning: Failed to calculate MD5 for /src/b/c.txt: failed to open file: permission denied'' @
                 [CHR 0x0A],
               ''Warning: Failed to calculate MD5 for /src/b/d.bin: failed to read file for hashing: input/output error'' @
                 [CHR 0x0A]]"
  have h1: "Scan ?sc example_digest ''/src'' example_tree = (Inr ?fs, ?out)"
    by code_simp
  have h2: "accessible example_tree"
    by code_simp
  have h3: "accessible example_tree \<and> (''b/d.bin'', ?d) \<in> set (scanned ?sc example_tree)
        \<and> \<not> info_IsDir ?d \<and> 0 < info_Size ?d
        \<and> calculateMD5 example_digest ?d =
            Inl (Wrap ''failed to read file for hashing'' (Err ''input/output error''))"
    by code_simp
  note t = scan_content_hash [of ?sc example_digest "''/src''" example_tree ?fs ?out "''b/d.bin''" ?d
      "Wrap ''failed to read file for hashing'' (Err ''input/output error'')"]
  have a: "\<forall>f \<in> set ?fs. MD5Hash f \<noteq> [] \<longrightarrow> \<not> IsDir f \<and> 0 < Size f"
    by (rule mp [OF conjunct1 [OF t] h1])
  note b = mp [OF conjunct1 [OF conjunct2 [OF t]] h2]
  note c = mp [OF conjunct2 [OF conjunct2 [OF t]] h3]
  have a': "list_all (\<lambda>f. MD5Hash f \<noteq> [] \<longrightarrow> \<not> IsDir f \<and> 0 < Size f) ?fs"
    unfolding list_all_iff by (rule a)
  from h1 a' b c show ?thesis by (intro conjI)
qed

section \<open>Debounce\<close>

text \<open>
  C8. Two change events for one path, the second one generated within the debounce
  window of the first: when the first passes the filter and the events channel has a
  free slot, exactly one event, the first, is added to the channel, and the second is
  suppressed and changes nothing.
\<close>

theorem debounce_two_events_one_emitted:
  assumes "Name e2 = Name e1"
      and "passes_debounce fw e1 now1"
      and "length (events fw) < events_capacity"
      and "now2 - Time e1 < debounce fw"
  shows "events (sendEvent (sendEvent fw e1 now1) e2 now2) = events fw @ [e1]
       \<and> sendEvent (sendEvent fw e1 now1) e2 now2 = sendEvent fw e1 now1"
  using assms
  by (simp add: sendEvent_def passes_debounce_def Let_def split: option.splits)

theorem debounce_two_events_one_emitted_witness:
  "events (sendEvent (sendEvent NewFileWatcher
       \<lparr>Name = ''/src/a.txt'', Op = Write, Time = 1000000000\<rparr> 1000000500)
       \<lparr>Name = ''/src/a.txt'', Op = Write, Time = 2000000000\<rparr> 2000000700)
   = events NewFileWatcher @ [\<lparr>Name = ''/src/a.txt'', Op = Write, Time = 1000000000\<rparr>]"
proof -
  let ?e1 = "\<lparr>Name = ''/src/a.txt'', Op = Write, Time = 1000000000\<rparr>"
  let ?e2 = "\<lparr>Name = ''/src/a.txt'', Op = Write, Time = 2000000000\<rparr>"
  have h1: "Name ?e2 = Name ?e1" by simp
  have h2: "passes_debounce NewFileWatcher ?e1 1000000500"
    by (simp add: passes_debounce_def NewFileWatcher_def)
  have h3: "length (events NewFileWatcher) < events_capacity"
    by (simp add: NewFileWatcher_def events_capacity_def)
  have h4: "2000000700 - Time ?e1 < debounce NewFileWatcher"
    by (simp add: NewFileWatcher_def)
  from debounce_two_events_one_emitted [OF h1 h2 h3 h4] show ?thesis
    by (rule conjunct1)
qed

text \<open>
  With a full channel the first event is recorded in the debounce map and dropped, and
  the second is suppressed: of two events within the window none reaches the consumer.
\<close>

theorem debounce_full_channel_counterexample:
  "events (sendEvent (sendEvent
       (NewFileWatcher\<lparr>events := replicate 100 \<lparr>Name = ''/src/b.txt'', Op = Create, Time = 0\<rparr>\<rparr>)
       \<lparr>Name = ''/src/a.txt'', Op = Write, Time = 1000000000\<rparr> 1000000500)
       \<lparr>Name = ''/src/a.txt'', Op = Write, Time = 2000000000\<rparr> 2000000700)
   = replicate 100 \<lparr>Name = ''/src/b.txt'', Op = Create, Time = 0\<rparr>"
  by (simp add: sendEvent_def NewFileWatcher_def events_capacity_def Let_def)

section \<open>Passes of the daemon\<close>

text \<open>
  C9. In every state that the daemon reaches, each of its two loops has at most one
  pass under way: without watch mode at most one pass is active, with watch mode at
  most two, one of the main loop and one of the watcher's goroutine. At most one tick
  and at most a hundred events wait to trigger further passes.
\<close>

theorem daemon_active_passes:
  assumes "daemon_run trace (Start_state cfg) = Some s"
  shows "active_passes s \<le> (if IsWatchMode cfg then 2 else 1)
       \<and> events_pending s \<le> events_capacity"
proof
  show "active_passes s \<le> (if IsWatchMode cfg then 2 else 1)"
  proof (cases "IsWatchMode cfg")
    case True
    then show ?thesis by (simp add: active_passes_def)
  next
    case False
    then have "watcher_at (Start_state cfg) = NoWatcher" by (simp add: Start_state_def)
    from daemon_run_watcher [OF assms this] False show ?thesis
      by (simp add: active_passes_def)
  qed
  have "events_pending (Start_state cfg) \<le> events_capacity" by (simp add: Start_state_def)
  from daemon_run_events [OF assms this] show "events_pending s \<le> events_capacity" .
qed

theorem daemon_active_passes_witness:
  "active_passes
     \<lparr>main_at = ScheduledSync, watcher_at = NoWatcher, tick_pending = True, events_pending = 0\<rparr>
     \<le> (if IsWatchMode DefaultConfig then 2 else 1)
   \<and> events_pending
     \<lparr>main_at = ScheduledSync, watcher_at = NoWatcher, tick_pending = True, events_pending = 0\<rparr>
     \<le> events_capacity"
proof -
  have h: "daemon_run [TickArrives, MainSyncReturns, MainTakesTick, TickArrives, TickArrives]
             (Start_state DefaultConfig) =
           Some \<lparr>main_at = ScheduledSync, watcher_at = NoWatcher, tick_pending = True,
                  events_pending = 0\<rparr>"
    by code_simp
  show ?thesis by (rule daemon_active_passes [OF h])
qed

text \<open>
  With watch mode, a file event that arrives during the initial sync starts a second pass
  in the watcher's goroutine a second later, while the initial sync is still under way.
\<close>

theorem daemon_two_passes_counterexample:
  "daemon_run [EventArrives, WatcherTakesEvent, WatcherWakes] (Start_state watch_mode_config) =
     Some \<lparr>main_at = InitialSync, watcher_at = WatcherSync, tick_pending = False,
            events_pending = 0\<rparr>
   \<and> active_passes
       \<lparr>main_at = InitialSync, watcher_at = WatcherSync, tick_pending = False,
         events_pending = 0\<rparr> = 2"
  by code_simp

section \<open>The ignore list of a pass\<close>




end
